theory Spec2Isabelle
  imports Complex_Main "HOL-Library.Log_Nat"
begin

section \<open>Values of the Go runtime\<close>

text \<open>
  A \<^verbatim>\<open>uuid.UUID\<close> is a 128-bit identifier; only equality and the byte order (the
  order of a primary-key index) are used, so it is the natural number the 16 bytes spell.
  A \<^verbatim>\<open>time.Time\<close> is an instant, in nanoseconds since the epoch; \<^verbatim>\<open>After\<close> and
  \<^verbatim>\<open>Before\<close> are the strict comparisons of instants.
\<close>

type_synonym uuid = nat
type_synonym time = int

definition After :: "time \<Rightarrow> time \<Rightarrow> bool" where
  "After t u = (u < t)"

definition Before :: "time \<Rightarrow> time \<Rightarrow> bool" where
  "Before t u = (t < u)"

subsection \<open>float64\<close>

text \<open>
  Amounts are \<^verbatim>\<open>float64\<close>. The amounts the program is given (order totals, discount
  values, minimum order values, prices) arrive as JSON numbers, which are finite: a
  finite binary64 value is the rational number it denotes, so comparisons are the
  comparisons of rationals. The type holds every rational, so a statement about all
  amounts covers the binary64 values among them. The sign of zero is not kept.
\<close>

type_synonym float64 = rat

text \<open>
  What an arithmetic operation returns: a finite value, an infinity when the rounded
  result overflows, or NaN.
\<close>

datatype f64 = Finite float64 | PosInf | NegInf | NaN

definition pow2 :: "int \<Rightarrow> rat" where
  "pow2 k = (if 0 \<le> k then 2 ^ nat k else 1 / 2 ^ nat (- k))"

text \<open>\<open>ilog2 a\<close> is the binary exponent of a positive rational: \<open>2 ^ e \<le> a < 2 ^ (e + 1)\<close>.\<close>

definition ilog2 :: "rat \<Rightarrow> int" where
  "ilog2 a =
     (let k = bitlen (fst (quotient_of a)) - bitlen (snd (quotient_of a))
      in if pow2 k \<le> a then k else k - 1)"

definition round_half_even :: "rat \<Rightarrow> int" where
  "round_half_even x =
     (let m = \<lfloor>x\<rfloor>; r = x - of_int m
      in if r < 1 / 2 then m
         else if 1 / 2 < r then m + 1
         else if even m then m else m + 1)"

text \<open>
  The nearest value with a 53-bit significand, ties to the even significand; below
  \<open>2 ^ -1022\<close> the spacing stays \<open>2 ^ -1074\<close>. The exponent is not bounded above here.
\<close>

definition f64_nearest :: "rat \<Rightarrow> rat" where
  "f64_nearest q =
     (if q = 0 then 0
      else let e = max (ilog2 \<bar>q\<bar>) (- 1022); ulp = pow2 (e - 52)
           in of_int (round_half_even (q / ulp)) * ulp)"

text \<open>
  IEEE 754 rounding of an exact result: round as if the exponent were unbounded, and
  return the infinity of the result's sign when the rounded magnitude reaches
  \<open>2 ^ 1024\<close>.
\<close>

definition f64_round :: "rat \<Rightarrow> f64" where
  "f64_round q =
     (let r = f64_nearest q
      in if r = 0 then Finite 0
         else if 1024 \<le> ilog2 \<bar>r\<bar> then (if 0 < r then PosInf else NegInf)
         else Finite r)"

text \<open>The product of a finite value and the result of an earlier operation.\<close>

definition f64_mul :: "float64 \<Rightarrow> f64 \<Rightarrow> f64" where
  "f64_mul a y =
     (case y of
        Finite b \<Rightarrow> f64_round (a * b)
      | PosInf \<Rightarrow> if a = 0 then NaN else if 0 < a then PosInf else NegInf
      | NegInf \<Rightarrow> if a = 0 then NaN else if 0 < a then NegInf else PosInf
      | NaN \<Rightarrow> NaN)"

text \<open>
  The quotient of two finite values. The program only divides by the constant 100; a
  zero divisor is taken as the positive zero.
\<close>

definition f64_div :: "float64 \<Rightarrow> float64 \<Rightarrow> f64" where
  "f64_div a b =
     (if b = 0 then (if a = 0 then NaN else if 0 < a then PosInf else NegInf)
      else f64_round (a / b))"

section \<open>The data model (package models)\<close>

text \<open>
  \<^verbatim>\<open>UsageType\<close> and \<^verbatim>\<open>DiscountType\<close> are string types with named constants; a
  value read from the store can be any string, and the code only compares it with the
  constants.
\<close>

type_synonym UsageType = string
type_synonym DiscountType = string

definition OneTime :: UsageType where
  "OneTime = ''one_time''"

definition MultiUse :: UsageType where
  "MultiUse = ''multi_use''"

definition TimeBased :: UsageType where
  "TimeBased = ''time_based''"

definition PercentageDiscount :: DiscountType where
  "PercentageDiscount = ''percentage''"

definition FixedDiscount :: DiscountType where
  "FixedDiscount = ''fixed''"

record TimeWindow =
  StartTime :: time
  EndTime :: time

record Medicine =
  ID :: uuid
  Name :: string
  Category :: string
  Price :: float64

record Category =
  ID :: uuid
  Name :: string

text \<open>
  The coupon row with its two preloaded associations. \<^verbatim>\<open>ValidTimeWindow\<close> is a
  pointer: \<open>None\<close> is nil. \<^verbatim>\<open>CreatedAt\<close>, \<^verbatim>\<open>UpdatedAt\<close> and the \<^verbatim>\<open>Usages\<close>
  back reference are never read by the code below and are left out. So is
  \<^verbatim>\<open>DeletedAt\<close>: GORM adds \<^verbatim>\<open>deleted_at IS NULL\<close> to every query on coupons, and
  nothing in the program ever sets that column, so every row passes.
\<close>

record Coupon =
  ID :: uuid
  Code :: string
  ExpiryDate :: time
  UsageType :: UsageType
  DiscountType :: DiscountType
  DiscountValue :: float64
  MinOrderValue :: float64
  MaxUsagePerUser :: int
  ValidTimeWindow :: "TimeWindow option"
  TermsAndConditions :: string
  IsActive :: bool
  ApplicableMedicines :: "Medicine list"
  ApplicableCategories :: "Category list"

record CouponUsage =
  ID :: uuid
  CouponID :: uuid
  UserID :: uuid
  OrderID :: uuid
  UsedAt :: time
  CreatedAt :: time

subsection \<open>Coupon.IsValid and Coupon.CalculateDiscount\<close>

definition Coupon_IsValid :: "Coupon \<Rightarrow> float64 \<Rightarrow> time \<Rightarrow> bool" where
  "Coupon_IsValid c orderTotal currentTime =
     (if \<not> IsActive c then False
      else if After currentTime (ExpiryDate c) then False
      else if orderTotal < MinOrderValue c then False
      else (case ValidTimeWindow c of
              None \<Rightarrow> True
            | Some w \<Rightarrow>
                if Before currentTime (StartTime w) \<or> After currentTime (EndTime w)
                then False else True))"

definition Coupon_CalculateDiscount :: "Coupon \<Rightarrow> float64 \<Rightarrow> f64" where
  "Coupon_CalculateDiscount c orderTotal =
     (if DiscountType c = PercentageDiscount
      then f64_mul orderTotal (f64_div (DiscountValue c) 100)
      else Finite (DiscountValue c))"

section \<open>The store (package repository)\<close>

text \<open>
  The two tables the code reads and writes, \<^verbatim>\<open>coupons\<close> and \<^verbatim>\<open>coupon_usages\<close>, as
  lists of rows. An \<^verbatim>\<open>error\<close> is \<^verbatim>\<open>gorm.ErrRecordNotFound\<close>, a value made by
  \<^verbatim>\<open>errors.New\<close> with its message, or any other error the driver reports (lost
  connection, cancelled context, violated constraint), carried with its message.
\<close>

datatype error = ErrRecordNotFound | errors_New string | DriverError string

record DB =
  coupons :: "Coupon list"
  coupon_usages :: "CouponUsage list"

text \<open>
  Whether the store answers a statement is decided outside the program. \<open>Faults\<close>
  gives, for each kind of statement an operation sends, the error the driver reports
  for it (\<open>None\<close>: the statement is carried out). Each operation below sends at most one
  statement of each kind.
\<close>

record Faults =
  begin_fault :: "error option"
  first_fault :: "error option"
  find_fault :: "error option"
  count_fault :: "error option"
  create_fault :: "error option"
  commit_fault :: "error option"

definition no_faults :: Faults where
  "no_faults = \<lparr>begin_fault = None, first_fault = None, find_fault = None,
     count_fault = None, create_fault = None, commit_fault = None\<rparr>"

text \<open>
  The GORM calls the repository makes. \<^verbatim>\<open>First\<close> orders the matching rows by primary
  key and takes the first, or reports \<^verbatim>\<open>ErrRecordNotFound\<close>; \<^verbatim>\<open>Find\<close> returns the
  matching rows; \<^verbatim>\<open>Count\<close> counts them; \<^verbatim>\<open>Create\<close> inserts one row. The schema's
  constraints (primary keys, the unique index on the coupon code) are the store's
  business: a statement that violates one is a statement the driver reports an error
  for, that is, a fault.
\<close>

definition gorm_First :: "error option \<Rightarrow> ('r \<Rightarrow> uuid) \<Rightarrow> ('r \<Rightarrow> bool) \<Rightarrow> 'r list \<Rightarrow> error + 'r" where
  "gorm_First fault pk cond rows =
     (case fault of
        Some e \<Rightarrow> Inl e
      | None \<Rightarrow>
          (case sort_key pk (filter cond rows) of
             [] \<Rightarrow> Inl ErrRecordNotFound
           | r # _ \<Rightarrow> Inr r))"

definition gorm_Find :: "error option \<Rightarrow> ('r \<Rightarrow> bool) \<Rightarrow> 'r list \<Rightarrow> error + 'r list" where
  "gorm_Find fault cond rows =
     (case fault of Some e \<Rightarrow> Inl e | None \<Rightarrow> Inr (filter cond rows))"

definition gorm_Count :: "error option \<Rightarrow> ('r \<Rightarrow> bool) \<Rightarrow> 'r list \<Rightarrow> error + int" where
  "gorm_Count fault cond rows =
     (case fault of Some e \<Rightarrow> Inl e | None \<Rightarrow> Inr (int (length (filter cond rows))))"

definition gorm_Create :: "error option \<Rightarrow> CouponUsage \<Rightarrow> DB \<Rightarrow> error option \<times> DB" where
  "gorm_Create fault usage db =
     (case fault of
        Some e \<Rightarrow> (Some e, db)
      | None \<Rightarrow> (None, db\<lparr>coupon_usages := coupon_usages db @ [usage]\<rparr>))"

text \<open>
  \<^verbatim>\<open>db.Transaction(fc)\<close>: begin, run \<open>fc\<close> on the transaction, roll back when it
  returns an error, commit otherwise. The store after a rollback or a failed commit is
  the store before.
\<close>

definition Transaction :: "Faults \<Rightarrow> DB \<Rightarrow> (DB \<Rightarrow> error option \<times> DB) \<Rightarrow> error option \<times> DB" where
  "Transaction f db fc =
     (case begin_fault f of
        Some e \<Rightarrow> (Some e, db)
      | None \<Rightarrow>
          (case fc db of
             (Some err, tx) \<Rightarrow> (Some err, db)
           | (None, tx) \<Rightarrow>
               (case commit_fault f of
                  Some e \<Rightarrow> (Some e, db)
                | None \<Rightarrow> (None, tx))))"

subsection \<open>isApplicableToCoupon\<close>

text \<open>
  The helper is defined twice in the source, word for word the same, in package service
  and in package repository. The three loops, innermost first.
\<close>

fun medicine_loop :: "Medicine \<Rightarrow> Medicine list \<Rightarrow> bool" where
  "medicine_loop item [] = False"
| "medicine_loop item (medicine # rest) =
     (if Medicine.ID item = Medicine.ID medicine then True else medicine_loop item rest)"

fun category_loop :: "Medicine \<Rightarrow> Category list \<Rightarrow> bool" where
  "category_loop item [] = False"
| "category_loop item (category # rest) =
     (if Medicine.Category item = Category.Name category then True
      else category_loop item rest)"

fun cart_loop :: "Coupon \<Rightarrow> Medicine list \<Rightarrow> bool" where
  "cart_loop coupon [] = False"
| "cart_loop coupon (item # rest) =
     (if medicine_loop item (ApplicableMedicines coupon) then True
      else if category_loop item (ApplicableCategories coupon) then True
      else cart_loop coupon rest)"

definition isApplicableToCoupon :: "Coupon \<Rightarrow> Medicine list \<Rightarrow> bool" where
  "isApplicableToCoupon coupon cartItems =
     (if length (ApplicableMedicines coupon) = 0 \<and> length (ApplicableCategories coupon) = 0
      then True
      else cart_loop coupon cartItems)"

subsection \<open>The repository's queries\<close>

definition GetByCode :: "Faults \<Rightarrow> DB \<Rightarrow> string \<Rightarrow> error + Coupon option" where
  "GetByCode f db code =
     (case gorm_First (first_fault f) Coupon.ID
             (\<lambda>c. Coupon.Code c = code \<and> IsActive c = True) (coupons db) of
        Inl err \<Rightarrow> if err = ErrRecordNotFound then Inr None else Inl err
      | Inr coupon \<Rightarrow> Inr (Some coupon))"

definition GetUserCouponUsage :: "Faults \<Rightarrow> DB \<Rightarrow> uuid \<Rightarrow> uuid \<Rightarrow> error + int" where
  "GetUserCouponUsage f db couponID userID =
     gorm_Count (count_fault f)
       (\<lambda>u. CouponID u = couponID \<and> CouponUsage.UserID u = userID) (coupon_usages db)"

text \<open>The filtering loop of \<^verbatim>\<open>GetApplicableCoupons\<close>, appending to the result.\<close>

fun applicable_loop :: "Medicine list \<Rightarrow> Coupon list \<Rightarrow> Coupon list \<Rightarrow> Coupon list" where
  "applicable_loop cartItems applicableCoupons [] = applicableCoupons"
| "applicable_loop cartItems applicableCoupons (coupon # rest) =
     (if isApplicableToCoupon coupon cartItems
      then applicable_loop cartItems (applicableCoupons @ [coupon]) rest
      else applicable_loop cartItems applicableCoupons rest)"

text \<open>\<open>now\<close> is what \<^verbatim>\<open>time.Now()\<close> returns when the query is built.\<close>

definition GetApplicableCoupons ::
    "Faults \<Rightarrow> DB \<Rightarrow> time \<Rightarrow> Medicine list \<Rightarrow> float64 \<Rightarrow> (error + Coupon list) \<times> DB" where
  "GetApplicableCoupons f db now cartItems orderTotal =
     (case gorm_Find (find_fault f)
             (\<lambda>c. IsActive c = True \<and> ExpiryDate c > now \<and> MinOrderValue c \<le> orderTotal)
             (coupons db) of
        Inl err \<Rightarrow> (Inl err, db)
      | Inr found \<Rightarrow> (Inr (applicable_loop cartItems [] found), db))"

subsection \<open>RecordCouponUsage\<close>

text \<open>The two limit checks of the transaction, each with its own count query.\<close>

definition one_time_check :: "Faults \<Rightarrow> DB \<Rightarrow> Coupon \<Rightarrow> CouponUsage \<Rightarrow> error option" where
  "one_time_check f tx coupon usage =
     (if UsageType coupon = OneTime then
        (case gorm_Count (count_fault f)
                (\<lambda>u. CouponID u = CouponID usage \<and> CouponUsage.UserID u = CouponUsage.UserID usage)
                (coupon_usages tx) of
           Inl err \<Rightarrow> Some err
         | Inr count \<Rightarrow>
             if count > 0 then Some (errors_New ''one-time coupon already used'') else None)
      else None)"

definition multi_use_check :: "Faults \<Rightarrow> DB \<Rightarrow> Coupon \<Rightarrow> CouponUsage \<Rightarrow> error option" where
  "multi_use_check f tx coupon usage =
     (if UsageType coupon = MultiUse then
        (case gorm_Count (count_fault f)
                (\<lambda>u. CouponID u = CouponID usage \<and> CouponUsage.UserID u = CouponUsage.UserID usage)
                (coupon_usages tx) of
           Inl err \<Rightarrow> Some err
         | Inr count \<Rightarrow>
             if count \<ge> MaxUsagePerUser coupon
             then Some (errors_New ''coupon usage limit exceeded'') else None)
      else None)"

text \<open>The function passed to \<^verbatim>\<open>Transaction\<close>.\<close>

definition RecordCouponUsage_body :: "Faults \<Rightarrow> CouponUsage \<Rightarrow> DB \<Rightarrow> error option \<times> DB" where
  "RecordCouponUsage_body f usage tx =
     (case gorm_First (first_fault f) Coupon.ID
             (\<lambda>c. Coupon.ID c = CouponID usage \<and> IsActive c = True) (coupons tx) of
        Inl err \<Rightarrow> (Some err, tx)
      | Inr coupon \<Rightarrow>
          (case one_time_check f tx coupon usage of
             Some err \<Rightarrow> (Some err, tx)
           | None \<Rightarrow>
               (case multi_use_check f tx coupon usage of
                  Some err \<Rightarrow> (Some err, tx)
                | None \<Rightarrow> gorm_Create (create_fault f) usage tx)))"

definition RecordCouponUsage :: "Faults \<Rightarrow> DB \<Rightarrow> CouponUsage \<Rightarrow> error option \<times> DB" where
  "RecordCouponUsage f db usage = Transaction f db (RecordCouponUsage_body f usage)"

section \<open>The service (package service)\<close>

record ValidateCouponInput =
  Code :: string
  CartItems :: "Medicine list"
  OrderTotal :: float64
  UserID :: uuid
  Timestamp :: time

record ValidateCouponOutput =
  IsValid :: bool
  ItemsDiscount :: f64
  ChargesDiscount :: f64
  Message :: string

text \<open>A declined coupon: the output with only \<^verbatim>\<open>IsValid\<close> and \<^verbatim>\<open>Message\<close> set.\<close>

definition declined :: "string \<Rightarrow> ValidateCouponOutput" where
  "declined msg = \<lparr>IsValid = False, ItemsDiscount = Finite 0, ChargesDiscount = Finite 0, Message = msg\<rparr>"

text \<open>
  Each service operation takes the store and returns its result with the store it
  leaves behind.
\<close>

definition ValidateCoupon ::
    "Faults \<Rightarrow> DB \<Rightarrow> ValidateCouponInput \<Rightarrow> (error + ValidateCouponOutput) \<times> DB" where
  "ValidateCoupon f db input =
     (case GetByCode f db (ValidateCouponInput.Code input) of
        Inl err \<Rightarrow> (Inl err, db)
      | Inr None \<Rightarrow> (Inr (declined ''coupon not found''), db)
      | Inr (Some coupon) \<Rightarrow>
          if \<not> Coupon_IsValid coupon (OrderTotal input) (Timestamp input)
          then (Inr (declined ''coupon is not valid for this order''), db)
          else if \<not> isApplicableToCoupon coupon (CartItems input)
          then (Inr (declined ''coupon is not applicable to any items in cart''), db)
          else
            (case GetUserCouponUsage f db (Coupon.ID coupon) (ValidateCouponInput.UserID input) of
               Inl err \<Rightarrow> (Inl err, db)
             | Inr usageCount \<Rightarrow>
                 if UsageType coupon = OneTime \<and> usageCount > 0
                 then (Inr (declined ''one-time coupon already used''), db)
                 else if UsageType coupon = MultiUse \<and> usageCount \<ge> MaxUsagePerUser coupon
                 then (Inr (declined ''coupon usage limit exceeded''), db)
                 else (Inr \<lparr>IsValid = True,
                             ItemsDiscount = Coupon_CalculateDiscount coupon (OrderTotal input),
                             ChargesDiscount = Finite 0,
                             Message = ''coupon applied successfully''\<rparr>, db)))"

text \<open>
  The service's \<^verbatim>\<open>RecordCouponUsage\<close> builds the row: \<open>newID\<close> is what
  \<^verbatim>\<open>uuid.New()\<close> returns, \<open>usedAt\<close> and \<open>createdAt\<close> the two readings of the clock.
\<close>

definition Service_RecordCouponUsage ::
    "Faults \<Rightarrow> DB \<Rightarrow> uuid \<Rightarrow> time \<Rightarrow> time \<Rightarrow> uuid \<Rightarrow> uuid \<Rightarrow> uuid \<Rightarrow> error option \<times> DB" where
  "Service_RecordCouponUsage f db newID usedAt createdAt couponID userID orderID =
     RecordCouponUsage f db
       \<lparr>CouponUsage.ID = newID, CouponID = couponID, CouponUsage.UserID = userID,
        OrderID = orderID,
        UsedAt = usedAt, CreatedAt = createdAt\<rparr>"

section \<open>Concurrent redemptions\<close>

text \<open>
  \<^verbatim>\<open>RecordCouponUsage\<close> opens its transaction with the driver's default options
  (\<^verbatim>\<open>main\<close> opens PostgreSQL with an empty \<^verbatim>\<open>gorm.Config\<close>, the compose file runs
  the stock image: isolation level read committed) and takes no lock, so the store runs
  the statements of concurrent transactions one at a time in any order, and each
  statement reads what has been committed so far. A transaction in flight is at one of
  three statements (the coupon fetch, the limit check with its count, the insert with
  the commit) or has returned. Inserting and committing in one step leaves out the
  interleavings between the two; the store is taken to answer every statement.
\<close>

datatype tx_pc = AtFirst | AtCheck Coupon | AtCreate | Returned "error option"

fun tx_step :: "DB \<Rightarrow> CouponUsage \<Rightarrow> tx_pc \<Rightarrow> DB \<times> tx_pc" where
  "tx_step db usage AtFirst =
     (case gorm_First None Coupon.ID
             (\<lambda>c. Coupon.ID c = CouponID usage \<and> IsActive c = True) (coupons db) of
        Inl err \<Rightarrow> (db, Returned (Some err))
      | Inr coupon \<Rightarrow> (db, AtCheck coupon))"
| "tx_step db usage (AtCheck coupon) =
     (case one_time_check no_faults db coupon usage of
        Some err \<Rightarrow> (db, Returned (Some err))
      | None \<Rightarrow>
          (case multi_use_check no_faults db coupon usage of
             Some err \<Rightarrow> (db, Returned (Some err))
           | None \<Rightarrow> (db, AtCreate)))"
| "tx_step db usage AtCreate =
     (case gorm_Create None usage db of (err, db') \<Rightarrow> (db', Returned err))"
| "tx_step db usage (Returned r) = (db, Returned r)"

text \<open>
  A schedule names, step by step, the transaction whose next statement the store runs.
\<close>

fun interleave ::
    "nat list \<Rightarrow> DB \<times> (CouponUsage \<times> tx_pc) list \<Rightarrow> DB \<times> (CouponUsage \<times> tx_pc) list" where
  "interleave [] s = s"
| "interleave (i # schedule) (db, txs) =
     (if i < length txs
      then (case tx_step db (fst (txs ! i)) (snd (txs ! i)) of
              (db', pc') \<Rightarrow> interleave schedule (db', txs[i := (fst (txs ! i), pc')]))
      else interleave schedule (db, txs))"

section \<open>Notions the statements use\<close>

text \<open>The number of usage records of a user for a coupon: the ledger's count.\<close>

definition usage_count :: "DB \<Rightarrow> uuid \<Rightarrow> uuid \<Rightarrow> int" where
  "usage_count db couponID userID =
     int (length (filter (\<lambda>u. CouponID u = couponID \<and> CouponUsage.UserID u = userID)
                    (coupon_usages db)))"

text \<open>The active coupon with a given identifier, as a working store returns it.\<close>

definition fetch_active :: "DB \<Rightarrow> uuid \<Rightarrow> error + Coupon" where
  "fetch_active db couponID =
     gorm_First None Coupon.ID (\<lambda>c. Coupon.ID c = couponID \<and> IsActive c = True) (coupons db)"

text \<open>A caller recording one redemption after the other, with the outcome of each call.\<close>

fun record_all :: "Faults \<Rightarrow> DB \<Rightarrow> CouponUsage list \<Rightarrow> error option list \<times> DB" where
  "record_all f db [] = ([], db)"
| "record_all f db (usage # rest) =
     (case RecordCouponUsage f db usage of
        (r, db') \<Rightarrow> (case record_all f db' rest of (rs, db'') \<Rightarrow> (r # rs, db'')))"

section \<open>Example data\<close>

text \<open>
  The coupon of the README and of the end-to-end scenario: \<^verbatim>\<open>SAVE20\<close>, multi-use,
  20 percent, minimum order 100, at most 5 redemptions per user.
\<close>

definition save20 :: Coupon where
  "save20 = \<lparr>Coupon.ID = 101, Code = ''SAVE20'', ExpiryDate = 2000, UsageType = MultiUse,
     DiscountType = PercentageDiscount, DiscountValue = 20, MinOrderValue = 100,
     MaxUsagePerUser = 5, ValidTimeWindow = None, TermsAndConditions = [],
     IsActive = True, ApplicableMedicines = [], ApplicableCategories = []\<rparr>"

text \<open>A one-time coupon of a fixed 50, restricted to the category \<^verbatim>\<open>painkiller\<close>.\<close>

definition once50 :: Coupon where
  "once50 = \<lparr>Coupon.ID = 102, Code = ''ONCE50'', ExpiryDate = 2000, UsageType = OneTime,
     DiscountType = FixedDiscount, DiscountValue = 50, MinOrderValue = 0,
     MaxUsagePerUser = 1, ValidTimeWindow = None, TermsAndConditions = [],
     IsActive = True, ApplicableMedicines = [],
     ApplicableCategories = [\<lparr>Category.ID = 7, Name = ''painkiller''\<rparr>]\<rparr>"

text \<open>A time-based coupon with a window, restricted to one medicine.\<close>

definition flash10 :: Coupon where
  "flash10 = \<lparr>Coupon.ID = 103, Code = ''FLASH10'', ExpiryDate = 2000, UsageType = TimeBased,
     DiscountType = PercentageDiscount, DiscountValue = 10, MinOrderValue = 0,
     MaxUsagePerUser = 1, ValidTimeWindow = Some \<lparr>StartTime = 1000, EndTime = 1500\<rparr>,
     TermsAndConditions = [], IsActive = True,
     ApplicableMedicines =
       [\<lparr>Medicine.ID = 123, Name = ''aspirin'', Category = ''painkiller'', Price = 100\<rparr>],
     ApplicableCategories = []\<rparr>"

definition med_123 :: Medicine where
  "med_123 = \<lparr>Medicine.ID = 123, Name = ''aspirin'', Category = ''painkiller'', Price = 100\<rparr>"

definition med_456 :: Medicine where
  "med_456 = \<lparr>Medicine.ID = 456, Name = ''bandage'', Category = ''Painkiller '', Price = 20\<rparr>"

text \<open>The row recording a redemption of coupon \<open>c\<close> by user \<open>u\<close>, with primary key \<open>i\<close>.\<close>

definition usage_row :: "uuid \<Rightarrow> uuid \<Rightarrow> uuid \<Rightarrow> CouponUsage" where
  "usage_row i c u = \<lparr>CouponUsage.ID = i, CouponID = c, CouponUsage.UserID = u,
     OrderID = i, UsedAt = 1200, CreatedAt = 1200\<rparr>"

definition store0 :: DB where
  "store0 = \<lparr>coupons = [save20, once50, flash10], coupon_usages = []\<rparr>"

text \<open>User 77 validating a coupon code for a cart and an order total, at time 1200.\<close>

definition checkout :: "string \<Rightarrow> Medicine list \<Rightarrow> float64 \<Rightarrow> ValidateCouponInput" where
  "checkout code cart orderTotal = \<lparr>ValidateCouponInput.Code = code, CartItems = cart,
     OrderTotal = orderTotal, ValidateCouponInput.UserID = 77, Timestamp = 1200\<rparr>"

section \<open>Facts about the runtime values and the store\<close>

lemma usage_type_distinct:
  "OneTime \<noteq> MultiUse" "MultiUse \<noteq> OneTime" "TimeBased \<noteq> OneTime" "OneTime \<noteq> TimeBased"
  "TimeBased \<noteq> MultiUse" "MultiUse \<noteq> TimeBased"
  by (simp_all add: OneTime_def MultiUse_def TimeBased_def)

lemma discount_type_distinct:
  "FixedDiscount \<noteq> PercentageDiscount" "PercentageDiscount \<noteq> FixedDiscount"
  by (simp_all add: FixedDiscount_def PercentageDiscount_def)

text \<open>
  The rounding of the binary64 model: \<open>ilog2\<close> is the binary exponent, and the rounded
  value lies within half a unit in the last place of the exact one.
\<close>

lemma pow2_powr: "pow2 k = 2 powi k"
  unfolding pow2_def power_int_def by (simp add: inverse_eq_divide power_one_over)

lemma pow2_pos: "0 < pow2 k"
  by (simp add: pow2_powr)

lemma pow2_add: "pow2 (j + k) = pow2 j * pow2 k"
  by (simp add: pow2_powr power_int_add)

lemma pow2_mono: "j \<le> k \<Longrightarrow> pow2 j \<le> pow2 k"
  by (simp add: pow2_powr power_int_increasing)

lemma pow2_less_imp: "pow2 j < pow2 k \<Longrightarrow> j < k"
  using pow2_mono [of k j] by (cases "j < k") auto

lemma ilog2_bounds:
  assumes "0 < a"
  shows "pow2 (ilog2 a) \<le> a \<and> a < pow2 (ilog2 a + 1)"
proof -
  obtain n d where nd: "quotient_of a = (n, d)"
    by (cases "quotient_of a")
  then have d: "0 < d" and a: "a = of_int n / of_int d"
    using quotient_of_denom_pos quotient_of_div by blast+
  with assms have n: "0 < n"
    by (simp add: zero_less_divide_iff)
  let ?k = "bitlen n - bitlen d"
  from bitlen_bounds [OF n] have n1: "2 ^ nat (bitlen n - 1) \<le> n" and n2: "n < 2 ^ nat (bitlen n)"
    by simp_all
  from bitlen_bounds [OF d] have d1: "2 ^ nat (bitlen d - 1) \<le> d" and d2: "d < 2 ^ nat (bitlen d)"
    by simp_all
  have bn: "1 \<le> bitlen n" and bd: "1 \<le> bitlen d"
    using n d by (auto simp: bitlen_alt_def)
  have "(of_int n :: rat) < of_int (2 ^ nat (bitlen n))"
    using n2 by (simp only: of_int_less_iff)
  then have n2': "(of_int n :: rat) < pow2 (bitlen n)"
    using bn by (simp add: pow2_def)
  have "(of_int (2 ^ nat (bitlen d - 1)) :: rat) \<le> of_int d"
    using d1 by (simp only: of_int_le_iff)
  then have d1': "pow2 (bitlen d - 1) \<le> of_int d"
    using bd by (simp add: pow2_def)
  have "of_int n < pow2 (bitlen n - bitlen d + 1) * pow2 (bitlen d - 1)"
    using n2' by (simp add: pow2_add [symmetric])
  also have "\<dots> \<le> pow2 (bitlen n - bitlen d + 1) * of_int d"
    using d1' pow2_pos [of "bitlen n - bitlen d + 1"] by (simp add: mult_left_mono)
  finally have upper: "a < pow2 (?k + 1)"
    using d by (simp add: a pos_divide_less_eq)
  have "(of_int (2 ^ nat (bitlen n - 1)) :: rat) \<le> of_int n"
    using n1 by (simp only: of_int_le_iff)
  then have n1': "pow2 (bitlen n - 1) \<le> of_int n"
    using bn by (simp add: pow2_def)
  have "(of_int d :: rat) < of_int (2 ^ nat (bitlen d))"
    using d2 by (simp only: of_int_less_iff)
  then have d2': "(of_int d :: rat) < pow2 (bitlen d)"
    using bd by (simp add: pow2_def)
  have "pow2 (?k - 1) * of_int d \<le> pow2 (?k - 1) * pow2 (bitlen d)"
    using d2' pow2_pos [of "?k - 1"] by (simp add: mult_left_mono)
  also have "\<dots> = pow2 (bitlen n - 1)"
    by (simp add: pow2_add [symmetric])
  also have "\<dots> \<le> of_int n"
    by (rule n1')
  finally have lower: "pow2 (?k - 1) \<le> a"
    using d by (simp add: a pos_le_divide_eq)
  show ?thesis
  proof (cases "pow2 ?k \<le> a")
    case True
    with upper nd show ?thesis
      by (simp add: ilog2_def)
  next
    case False
    with lower nd show ?thesis
      by (simp add: ilog2_def)
  qed
qed

lemma round_half_even_nearest: "\<bar>of_int (round_half_even x) - x\<bar> \<le> 1 / 2"
proof -
  have bounds: "of_int \<lfloor>x\<rfloor> \<le> x" "x < of_int \<lfloor>x\<rfloor> + 1"
    by linarith+
  show ?thesis
  proof (cases "x - of_int \<lfloor>x\<rfloor> < 1 / 2")
    case True
    with bounds show ?thesis
      by (simp add: round_half_even_def Let_def abs_if) linarith
  next
    case False
    with bounds show ?thesis
      by (auto simp: round_half_even_def Let_def abs_if)
  qed
qed

lemma f64_nearest_error:
  "\<bar>f64_nearest q - q\<bar> \<le> pow2 (max (ilog2 \<bar>q\<bar>) (- 1022) - 53)"
proof (cases "q = 0")
  case True
  then show ?thesis
    using pow2_pos [of "max (ilog2 \<bar>q\<bar>) (- 1022) - 53"] by (simp add: f64_nearest_def)
next
  case False
  let ?e = "max (ilog2 \<bar>q\<bar>) (- 1022)"
  let ?ulp = "pow2 (?e - 52)"
  have ulp: "0 < ?ulp"
    by (rule pow2_pos)
  have half: "?ulp / 2 = pow2 (?e - 53)"
    using pow2_add [of "?e - 53" 1] by (simp add: pow2_def)
  have "f64_nearest q - q = (of_int (round_half_even (q / ?ulp)) - q / ?ulp) * ?ulp"
    using False ulp by (simp add: f64_nearest_def Let_def left_diff_distrib)
  then have "\<bar>f64_nearest q - q\<bar> = \<bar>of_int (round_half_even (q / ?ulp)) - q / ?ulp\<bar> * ?ulp"
    using ulp by (simp add: abs_mult)
  also have "\<dots> \<le> 1 / 2 * ?ulp"
    using round_half_even_nearest [of "q / ?ulp"] ulp by (intro mult_right_mono) simp_all
  finally show ?thesis
    using half by simp
qed

text \<open>
  Overflow: an exact result of at least \<open>2 ^ 1024\<close> rounds to the positive infinity,
  and every finite result lies below \<open>2 ^ 1024\<close> in magnitude.
\<close>

lemma round_half_even_floor: "\<lfloor>x\<rfloor> \<le> round_half_even x"
  by (simp add: round_half_even_def Let_def)

lemma f64_nearest_lower:
  assumes "pow2 k \<le> q" "- 1022 \<le> k"
  shows "pow2 k \<le> f64_nearest q"
proof -
  have q: "0 < q"
    using assms(1) pow2_pos [of k] by simp
  then have abs: "\<bar>q\<bar> = q"
    by simp
  let ?e = "ilog2 q"
  from ilog2_bounds [OF q] have "pow2 k < pow2 (?e + 1)"
    using assms(1) by simp
  then have ke: "k \<le> ?e"
    using pow2_less_imp [of k "?e + 1"] by simp
  with assms(2) have e: "max ?e (- 1022) = ?e"
    by simp
  let ?ulp = "pow2 (?e - 52)"
  let ?m = "round_half_even (q / ?ulp)"
  have ulp: "0 < ?ulp"
    by (rule pow2_pos)
  have "pow2 52 * ?ulp = pow2 ?e"
    using pow2_add [of 52 "?e - 52"] by simp
  also have "\<dots> \<le> q"
    using ilog2_bounds [OF q] by simp
  finally have "pow2 52 \<le> q / ?ulp"
    using ulp by (simp add: pos_le_divide_eq)
  then have "(2 ^ 52 :: rat) \<le> q / ?ulp"
    by (simp add: pow2_def)
  then have "(2 ^ 52 :: int) \<le> \<lfloor>q / ?ulp\<rfloor>"
    by (simp add: le_floor_iff)
  with round_half_even_floor [of "q / ?ulp"] have "(2 ^ 52 :: int) \<le> ?m"
    by linarith
  then have "(of_int (2 ^ 52) :: rat) \<le> of_int ?m"
    by (simp only: of_int_le_iff)
  then have "pow2 52 \<le> of_int ?m"
    by (simp add: pow2_def)
  then have "pow2 52 * ?ulp \<le> of_int ?m * ?ulp"
    using ulp by (simp add: mult_right_mono)
  also have "of_int ?m * ?ulp = f64_nearest q"
    using q e by (simp add: f64_nearest_def Let_def abs)
  finally have "pow2 ?e \<le> f64_nearest q"
    using pow2_add [of 52 "?e - 52"] by simp
  with pow2_mono [OF ke] show ?thesis
    by linarith
qed

lemma f64_round_overflow:
  assumes "pow2 1024 \<le> q"
  shows "f64_round q = PosInf"
proof -
  have r: "pow2 1024 \<le> f64_nearest q"
    using f64_nearest_lower [OF assms] by simp
  with pow2_pos [of 1024] have pos: "0 < f64_nearest q"
    by linarith
  from ilog2_bounds [OF pos] r have "pow2 1024 < pow2 (ilog2 (f64_nearest q) + 1)"
    by linarith
  then have "1024 \<le> ilog2 (f64_nearest q)"
    using pow2_less_imp [of 1024 "ilog2 (f64_nearest q) + 1"] by simp
  with pos show ?thesis
    by (simp add: f64_round_def Let_def)
qed

lemma f64_round_finite:
  assumes "f64_round q = Finite r"
  shows "\<bar>r\<bar> < pow2 1024"
proof (cases "r = 0")
  case True
  then show ?thesis
    using pow2_pos [of 1024] by simp
next
  case False
  with assms have r: "r = f64_nearest q" and small: "ilog2 \<bar>r\<bar> < 1024"
    by (auto simp: f64_round_def Let_def split: if_splits)
  from False have "0 < \<bar>r\<bar>"
    by simp
  from ilog2_bounds [OF this] have "\<bar>r\<bar> < pow2 (ilog2 \<bar>r\<bar> + 1)"
    by simp
  also have "\<dots> \<le> pow2 1024"
    using small by (intro pow2_mono) simp
  finally show ?thesis .
qed

text \<open>
  Known binary64 values: \<open>0.1\<close> is \<open>3602879701896397 / 2 ^ 55\<close>, and above \<open>2 ^ 53\<close>
  the odd integers are ties, rounded to the even significand.
\<close>

lemma f64_round_vectors:
  "f64_round (1 / 10) = Finite (3602879701896397 / 36028797018963968)"
  "f64_round (2 ^ 53 + 1) = Finite (2 ^ 53)"
  "f64_round (2 ^ 53 + 3) = Finite (2 ^ 53 + 4)"
  by code_simp+

text \<open>The product of the scenario, in binary64: \<open>20 / 100\<close> rounds up, the product rounds back.\<close>

lemma twenty_percent_of_700: "f64_mul 700 (f64_div 20 100) = Finite 140"
  by code_simp

lemma sort_key_Nil_iff: "sort_key k xs = [] \<longleftrightarrow> xs = []"
proof -
  have "length (sort_key k xs) = length xs"
    by simp
  then show ?thesis
    by (metis length_0_conv)
qed

lemma gorm_First_not_found:
  "(gorm_First None pk cond rows = Inl e) \<longleftrightarrow> (e = ErrRecordNotFound \<and> (\<forall>r \<in> set rows. \<not> cond r))"
proof -
  have "sort_key pk (filter cond rows) = [] \<longleftrightarrow> (\<forall>r \<in> set rows. \<not> cond r)"
    by (simp add: sort_key_Nil_iff filter_empty_conv)
  then show ?thesis
    by (cases "sort_key pk (filter cond rows)") (auto simp: gorm_First_def)
qed

lemma gorm_First_found:
  assumes "gorm_First None pk cond rows = Inr r"
  shows "r \<in> set rows \<and> cond r"
proof -
  from assms obtain rs where "sort_key pk (filter cond rows) = r # rs"
    by (auto simp: gorm_First_def split: list.splits)
  then have "r \<in> set (sort_key pk (filter cond rows))"
    by simp
  then show ?thesis
    by simp
qed

lemma gorm_First_fault: "gorm_First (Some e) pk cond rows = Inl e"
  by (simp add: gorm_First_def)

lemma Transaction_rollback:
  "fst (Transaction f db fc) \<noteq> None \<Longrightarrow> snd (Transaction f db fc) = db"
  by (auto simp: Transaction_def split: option.splits prod.splits)

lemma usage_row_sel:
  "CouponID (usage_row i c u) = c" "CouponUsage.UserID (usage_row i c u) = u"
  by (simp_all add: usage_row_def)

lemma example_coupon_fields:
  "UsageType save20 = MultiUse" "UsageType once50 = OneTime" "UsageType flash10 = TimeBased"
  "MaxUsagePerUser save20 = 5"
  by (simp_all add: save20_def once50_def flash10_def)

lemma fetch_active_found:
  "fetch_active db couponID = Inr coupon \<Longrightarrow>
     IsActive coupon \<and> Coupon.ID coupon = couponID \<and> coupon \<in> set (coupons db)"
  unfolding fetch_active_def by (drule gorm_First_found) simp

lemma fetch_active_not_found:
  "(\<forall>c \<in> set (coupons db). Coupon.ID c = couponID \<longrightarrow> \<not> IsActive c) \<Longrightarrow>
     fetch_active db couponID = Inl ErrRecordNotFound"
  unfolding fetch_active_def by (simp add: gorm_First_not_found)

lemma fetch_active_store0:
  "fetch_active (store0\<lparr>coupon_usages := us\<rparr>) 101 = Inr save20"
  "fetch_active (store0\<lparr>coupon_usages := us\<rparr>) 102 = Inr once50"
  "fetch_active (store0\<lparr>coupon_usages := us\<rparr>) 103 = Inr flash10"
  by (simp_all add: fetch_active_def gorm_First_def store0_def save20_def once50_def flash10_def)

lemma store0_sel: "coupons store0 = [save20, once50, flash10]" "coupon_usages store0 = []"
  by (simp_all add: store0_def)

lemma store0_no_usages: "store0\<lparr>coupon_usages := []\<rparr> = store0"
  by (simp add: store0_def)

section \<open>The validity predicate\<close>

text \<open>
  Claim C3. \<^verbatim>\<open>IsValid(orderTotal, now)\<close> is true exactly when the coupon is active,
  \<open>now\<close> is not after the expiry date, the order total reaches the minimum order
  value and, when a time window is set, \<open>now\<close> lies in it, both ends included. It is
  false for every inactive coupon whatever the other fields are, and a coupon exactly at
  its expiry instant passes the expiry check. The predicate is a function of the coupon,
  the order total and the time alone: the method only reads its receiver.
\<close>

theorem Coupon_IsValid_iff:
  "(Coupon_IsValid c orderTotal now \<longleftrightarrow>
      IsActive c \<and> now \<le> ExpiryDate c \<and> MinOrderValue c \<le> orderTotal \<and>
      (case ValidTimeWindow c of
         None \<Rightarrow> True
       | Some w \<Rightarrow> StartTime w \<le> now \<and> now \<le> EndTime w)) \<and>
   \<not> Coupon_IsValid (c\<lparr>IsActive := False\<rparr>) orderTotal now \<and>
   (Coupon_IsValid (c\<lparr>ExpiryDate := now\<rparr>) orderTotal now \<longleftrightarrow>
      IsActive c \<and> MinOrderValue c \<le> orderTotal \<and>
      (case ValidTimeWindow c of
         None \<Rightarrow> True
       | Some w \<Rightarrow> StartTime w \<le> now \<and> now \<le> EndTime w))"
  by (auto simp: Coupon_IsValid_def After_def Before_def split: option.splits)

text \<open>The window's two ends, the expiry instant, the minimum order value, the active flag.\<close>

theorem Coupon_IsValid_examples:
  "Coupon_IsValid flash10 0 1000 \<and> Coupon_IsValid flash10 0 1500 \<and>
   \<not> Coupon_IsValid flash10 0 999 \<and> \<not> Coupon_IsValid flash10 0 1501 \<and>
   Coupon_IsValid save20 100 2000 \<and> \<not> Coupon_IsValid save20 100 2001 \<and>
   \<not> Coupon_IsValid save20 99 2000 \<and>
   \<not> Coupon_IsValid (save20\<lparr>IsActive := False\<rparr>) 100 2000"
  using Coupon_IsValid_iff [of flash10 0 1000] Coupon_IsValid_iff [of flash10 0 1500]
    Coupon_IsValid_iff [of flash10 0 999] Coupon_IsValid_iff [of flash10 0 1501]
    Coupon_IsValid_iff [of save20 100 2000] Coupon_IsValid_iff [of save20 100 2001]
    Coupon_IsValid_iff [of save20 99 2000]
  by (simp add: flash10_def save20_def)

section \<open>The discount\<close>

text \<open>
  A percentage of 1000 on an order total of \<open>1e308\<close> (both pass the request binding):
  the quotient is 10 and the product overflows, so the discount is the positive
  infinity, as in Go.
\<close>

lemma Coupon_CalculateDiscount_overflow:
  assumes "DiscountType c = PercentageDiscount" "DiscountValue c = 1000"
    and "pow2 1024 \<le> orderTotal * 10"
  shows "Coupon_CalculateDiscount c orderTotal = PosInf"
proof -
  have "f64_div 1000 100 = Finite 10"
    by code_simp
  with assms show ?thesis
    by (simp add: Coupon_CalculateDiscount_def f64_mul_def f64_round_overflow)
qed

lemma order_total_1e308: "pow2 1024 \<le> f64_nearest (10 ^ 308) * 10"
proof -
  have "pow2 1023 \<le> 10 ^ 308"
    by (simp add: pow2_def)
  then have "pow2 1023 \<le> f64_nearest (10 ^ 308)"
    by (rule f64_nearest_lower) simp
  moreover have "pow2 1024 = pow2 1023 * 2"
    using pow2_add [of 1023 1] by (simp add: pow2_def)
  ultimately show ?thesis
    using pow2_pos [of 1023] by linarith
qed

text \<open>
  Claim C5. \<^verbatim>\<open>CalculateDiscount\<close> returns \<open>orderTotal * (discountValue / 100)\<close>, in
  binary64 arithmetic (each operation rounded, overflow to infinity included), for a
  percentage coupon, and the discount value itself for a fixed coupon, also when that
  exceeds the order total. 20 percent of 700 is 140, and a fixed 50 on 700 (or on 30)
  is 50.
\<close>

theorem Coupon_CalculateDiscount_spec:
  "(DiscountType c = PercentageDiscount \<longrightarrow>
      Coupon_CalculateDiscount c orderTotal = f64_mul orderTotal (f64_div (DiscountValue c) 100)) \<and>
   (DiscountType c = FixedDiscount \<longrightarrow>
      Coupon_CalculateDiscount c orderTotal = Finite (DiscountValue c)) \<and>
   Coupon_CalculateDiscount (c\<lparr>DiscountType := PercentageDiscount, DiscountValue := 20\<rparr>) 700 =
     Finite 140 \<and>
   Coupon_CalculateDiscount (c\<lparr>DiscountType := FixedDiscount, DiscountValue := 50\<rparr>) 700 =
     Finite 50 \<and>
   Coupon_CalculateDiscount (c\<lparr>DiscountType := FixedDiscount, DiscountValue := 50\<rparr>) 30 =
     Finite 50"
  by (simp add: Coupon_CalculateDiscount_def discount_type_distinct twenty_percent_of_700)

text \<open>
  The same on the example coupons. The last two lines are binary64 at work: 10 percent
  of 3 is \<open>0.30000000000000004\<close>, not \<open>3 / 10\<close>, and 1000 percent of \<open>1e308\<close> is
  infinite.
\<close>

theorem Coupon_CalculateDiscount_examples:
  "Coupon_CalculateDiscount save20 700 = Finite 140 \<and>
   Coupon_CalculateDiscount once50 700 = Finite 50 \<and>
   Coupon_CalculateDiscount once50 30 = Finite 50 \<and>
   Coupon_CalculateDiscount (save20\<lparr>DiscountValue := 10\<rparr>) 3 =
     Finite (5404319552844596 / 18014398509481984) \<and>
   Coupon_CalculateDiscount (save20\<lparr>DiscountValue := 1000\<rparr>) (f64_nearest (10 ^ 308)) = PosInf"
proof -
  have drift: "f64_mul 3 (f64_div 10 100) = Finite (5404319552844596 / 18014398509481984)"
    by code_simp
  have ten: "f64_div 1000 100 = Finite 10"
    by code_simp
  have percentage: "DiscountType save20 = PercentageDiscount"
    and fixed: "DiscountType once50 = FixedDiscount"
    and amounts: "DiscountValue save20 = 20" "DiscountValue once50 = 50"
    by (simp_all add: save20_def once50_def)
  have twenty: "Coupon_CalculateDiscount save20 700 = Finite 140"
    using Coupon_CalculateDiscount_spec [of save20 700] percentage amounts
    by (simp add: twenty_percent_of_700)
  have fifty: "Coupon_CalculateDiscount once50 700 = Finite 50"
    "Coupon_CalculateDiscount once50 30 = Finite 50"
    using Coupon_CalculateDiscount_spec [of once50 700] Coupon_CalculateDiscount_spec [of once50 30]
      fixed amounts
    by simp_all
  have three: "Coupon_CalculateDiscount (save20\<lparr>DiscountValue := 10\<rparr>) 3 =
      Finite (5404319552844596 / 18014398509481984)"
    using Coupon_CalculateDiscount_spec [of "save20\<lparr>DiscountValue := 10\<rparr>" 3] percentage
    by (simp add: drift)
  have huge: "Coupon_CalculateDiscount (save20\<lparr>DiscountValue := 1000\<rparr>) (f64_nearest (10 ^ 308)) =
      PosInf"
    using Coupon_CalculateDiscount_spec [of "save20\<lparr>DiscountValue := 1000\<rparr>"
        "f64_nearest (10 ^ 308)"] percentage order_total_1e308
    by (simp add: ten f64_mul_def f64_round_overflow)
  from twenty fifty three huge show ?thesis
    by blast
qed

section \<open>The applicability matcher\<close>

lemma medicine_loop_iff:
  "medicine_loop item ms \<longleftrightarrow> (\<exists>m \<in> set ms. Medicine.ID item = Medicine.ID m)"
  by (induction ms) auto

lemma category_loop_iff:
  "category_loop item ks \<longleftrightarrow> (\<exists>k \<in> set ks. Medicine.Category item = Category.Name k)"
  by (induction ks) auto

lemma cart_loop_iff:
  "cart_loop coupon cart \<longleftrightarrow>
     (\<exists>item \<in> set cart.
        (\<exists>m \<in> set (ApplicableMedicines coupon). Medicine.ID item = Medicine.ID m) \<or>
        (\<exists>k \<in> set (ApplicableCategories coupon). Medicine.Category item = Category.Name k))"
  by (induction cart) (auto simp: medicine_loop_iff category_loop_iff)

text \<open>
  Claim C4. A coupon with no eligible medicine and no eligible category applies to
  every cart. Any other coupon applies exactly when some cart item has the identifier
  of an eligible medicine or the category name of an eligible category; names are
  compared as they are.
\<close>

theorem isApplicableToCoupon_iff:
  "(ApplicableMedicines coupon = [] \<and> ApplicableCategories coupon = [] \<longrightarrow>
      isApplicableToCoupon coupon cart) \<and>
   (\<not> (ApplicableMedicines coupon = [] \<and> ApplicableCategories coupon = []) \<longrightarrow>
      (isApplicableToCoupon coupon cart \<longleftrightarrow>
         (\<exists>item \<in> set cart.
            (\<exists>m \<in> set (ApplicableMedicines coupon). Medicine.ID item = Medicine.ID m) \<or>
            (\<exists>k \<in> set (ApplicableCategories coupon). Medicine.Category item = Category.Name k))))"
  by (simp add: isApplicableToCoupon_def cart_loop_iff)

text \<open>
  On the examples: \<open>med_456\<close> has the category \<^verbatim>\<open>Painkiller\<close> with a capital and a
  trailing blank, which is not the eligible \<^verbatim>\<open>painkiller\<close>.
\<close>

theorem isApplicableToCoupon_examples:
  "isApplicableToCoupon save20 [med_456] \<and>
   isApplicableToCoupon once50 [med_456, med_123] \<and>
   \<not> isApplicableToCoupon once50 [med_456] \<and>
   isApplicableToCoupon flash10 [med_123] \<and>
   \<not> isApplicableToCoupon flash10 [med_456]"
  using isApplicableToCoupon_iff [of save20 "[med_456]"]
    isApplicableToCoupon_iff [of once50 "[med_456, med_123]"]
    isApplicableToCoupon_iff [of once50 "[med_456]"]
    isApplicableToCoupon_iff [of flash10 "[med_123]"]
    isApplicableToCoupon_iff [of flash10 "[med_456]"]
  by (simp add: save20_def once50_def flash10_def med_123_def med_456_def)

text \<open>
  Claim C10. On the empty cart the matcher accepts every unrestricted coupon and
  rejects every restricted one.
\<close>

theorem isApplicableToCoupon_empty_cart:
  "(ApplicableMedicines coupon = [] \<and> ApplicableCategories coupon = [] \<longrightarrow>
      isApplicableToCoupon coupon []) \<and>
   (\<not> (ApplicableMedicines coupon = [] \<and> ApplicableCategories coupon = []) \<longrightarrow>
      \<not> isApplicableToCoupon coupon [])"
  by (simp add: isApplicableToCoupon_def)

theorem isApplicableToCoupon_empty_cart_examples:
  "isApplicableToCoupon save20 [] \<and> \<not> isApplicableToCoupon once50 [] \<and>
   \<not> isApplicableToCoupon flash10 []"
  using isApplicableToCoupon_empty_cart [of save20] isApplicableToCoupon_empty_cart [of once50]
    isApplicableToCoupon_empty_cart [of flash10]
  by (simp add: save20_def once50_def flash10_def)

section \<open>Recording a redemption\<close>

lemma body_no_faults:
  "RecordCouponUsage_body no_faults usage db =
     (case fetch_active db (CouponID usage) of
        Inl err \<Rightarrow> (Some err, db)
      | Inr coupon \<Rightarrow>
          if UsageType coupon = OneTime \<and>
             usage_count db (CouponID usage) (CouponUsage.UserID usage) > 0
          then (Some (errors_New ''one-time coupon already used''), db)
          else if UsageType coupon = MultiUse \<and>
             usage_count db (CouponID usage) (CouponUsage.UserID usage) \<ge> MaxUsagePerUser coupon
          then (Some (errors_New ''coupon usage limit exceeded''), db)
          else (None, db\<lparr>coupon_usages := coupon_usages db @ [usage]\<rparr>))"
  by (simp add: RecordCouponUsage_body_def fetch_active_def usage_count_def no_faults_def
      one_time_check_def multi_use_check_def gorm_Count_def gorm_Create_def usage_type_distinct
      split: sum.splits)

lemma RecordCouponUsage_no_faults:
  "RecordCouponUsage no_faults db usage =
     (case fetch_active db (CouponID usage) of
        Inl err \<Rightarrow> (Some err, db)
      | Inr coupon \<Rightarrow>
          if UsageType coupon = OneTime \<and>
             usage_count db (CouponID usage) (CouponUsage.UserID usage) > 0
          then (Some (errors_New ''one-time coupon already used''), db)
          else if UsageType coupon = MultiUse \<and>
             usage_count db (CouponID usage) (CouponUsage.UserID usage) \<ge> MaxUsagePerUser coupon
          then (Some (errors_New ''coupon usage limit exceeded''), db)
          else (None, db\<lparr>coupon_usages := coupon_usages db @ [usage]\<rparr>))"
  unfolding RecordCouponUsage_def Transaction_def body_no_faults
  by (simp add: no_faults_def split: sum.splits)

lemma body_outcome:
  "RecordCouponUsage_body f usage db = (r, db') \<Longrightarrow>
     (r \<noteq> None \<and> db' = db) \<or> (r = None \<and> db' = db\<lparr>coupon_usages := coupon_usages db @ [usage]\<rparr>)"
  by (auto simp: RecordCouponUsage_body_def gorm_Create_def split: sum.splits option.splits)

lemma RecordCouponUsage_outcome:
  "(fst (RecordCouponUsage f db usage) \<noteq> None \<longrightarrow> snd (RecordCouponUsage f db usage) = db) \<and>
   (fst (RecordCouponUsage f db usage) = None \<longrightarrow>
      snd (RecordCouponUsage f db usage) = db\<lparr>coupon_usages := coupon_usages db @ [usage]\<rparr>)"
proof (cases "RecordCouponUsage_body f usage db")
  case (Pair r db')
  from body_outcome [OF Pair] show ?thesis
    by (auto simp: RecordCouponUsage_def Transaction_def Pair split: option.splits)
qed

text \<open>
  Claim C1. With a store that answers every statement, \<^verbatim>\<open>RecordCouponUsage\<close> fails
  with \<^verbatim>\<open>ErrRecordNotFound\<close> when no active coupon has the identifier; for the coupon
  it fetches, a one-time coupon fails with the already-used error exactly when the user
  has a usage record for it, a multi-use coupon fails with the limit error exactly when
  the user's count has reached \<^verbatim>\<open>MaxUsagePerUser\<close>, and in every other case the
  usage is appended. Whatever the store does (any faults), a call that returns an error
  leaves the store as it was, and a call that returns nil has appended exactly the one
  record.
\<close>

theorem RecordCouponUsage_spec:
  "((\<forall>c \<in> set (coupons db). Coupon.ID c = CouponID usage \<longrightarrow> \<not> IsActive c) \<longrightarrow>
      RecordCouponUsage no_faults db usage = (Some ErrRecordNotFound, db)) \<and>
   (fetch_active db (CouponID usage) = Inr coupon \<longrightarrow>
      IsActive coupon \<and> Coupon.ID coupon = CouponID usage \<and> coupon \<in> set (coupons db) \<and>
      (UsageType coupon = OneTime \<longrightarrow>
         (fst (RecordCouponUsage no_faults db usage) =
            Some (errors_New ''one-time coupon already used'') \<longleftrightarrow>
          usage_count db (CouponID usage) (CouponUsage.UserID usage) > 0)) \<and>
      (UsageType coupon = MultiUse \<longrightarrow>
         (fst (RecordCouponUsage no_faults db usage) =
            Some (errors_New ''coupon usage limit exceeded'') \<longleftrightarrow>
          usage_count db (CouponID usage) (CouponUsage.UserID usage) \<ge> MaxUsagePerUser coupon)) \<and>
      (\<not> (UsageType coupon = OneTime \<and>
           usage_count db (CouponID usage) (CouponUsage.UserID usage) > 0) \<and>
       \<not> (UsageType coupon = MultiUse \<and>
           usage_count db (CouponID usage) (CouponUsage.UserID usage) \<ge> MaxUsagePerUser coupon) \<longrightarrow>
         RecordCouponUsage no_faults db usage =
           (None, db\<lparr>coupon_usages := coupon_usages db @ [usage]\<rparr>))) \<and>
   (fst (RecordCouponUsage f db usage) \<noteq> None \<longrightarrow> snd (RecordCouponUsage f db usage) = db) \<and>
   (fst (RecordCouponUsage f db usage) = None \<longrightarrow>
      snd (RecordCouponUsage f db usage) = db\<lparr>coupon_usages := coupon_usages db @ [usage]\<rparr>)"
proof -
  have inactive: "RecordCouponUsage no_faults db usage = (Some ErrRecordNotFound, db)"
    if "\<forall>c \<in> set (coupons db). Coupon.ID c = CouponID usage \<longrightarrow> \<not> IsActive c"
    using fetch_active_not_found [OF that] by (simp add: RecordCouponUsage_no_faults)
  have fetched: "IsActive coupon \<and> Coupon.ID coupon = CouponID usage \<and> coupon \<in> set (coupons db)"
    if "fetch_active db (CouponID usage) = Inr coupon"
    using fetch_active_found [OF that] .
  have one_time: "fst (RecordCouponUsage no_faults db usage) =
        Some (errors_New ''one-time coupon already used'') \<longleftrightarrow>
      usage_count db (CouponID usage) (CouponUsage.UserID usage) > 0"
    if "fetch_active db (CouponID usage) = Inr coupon" "UsageType coupon = OneTime"
    using that by (simp add: RecordCouponUsage_no_faults usage_type_distinct)
  have multi_use: "fst (RecordCouponUsage no_faults db usage) =
        Some (errors_New ''coupon usage limit exceeded'') \<longleftrightarrow>
      usage_count db (CouponID usage) (CouponUsage.UserID usage) \<ge> MaxUsagePerUser coupon"
    if "fetch_active db (CouponID usage) = Inr coupon" "UsageType coupon = MultiUse"
    using that by (simp add: RecordCouponUsage_no_faults usage_type_distinct)
  have otherwise: "RecordCouponUsage no_faults db usage =
        (None, db\<lparr>coupon_usages := coupon_usages db @ [usage]\<rparr>)"
    if "fetch_active db (CouponID usage) = Inr coupon"
      "\<not> (UsageType coupon = OneTime \<and>
          usage_count db (CouponID usage) (CouponUsage.UserID usage) > 0)"
      "\<not> (UsageType coupon = MultiUse \<and>
          usage_count db (CouponID usage) (CouponUsage.UserID usage) \<ge> MaxUsagePerUser coupon)"
    using that by (simp add: RecordCouponUsage_no_faults)
  from inactive fetched one_time multi_use otherwise RecordCouponUsage_outcome [of f db usage]
  show ?thesis
    by blast
qed

text \<open>
  First and second redemption of the one-time coupon, another user, the sixth and the
  fifth redemption of \<^verbatim>\<open>SAVE20\<close>, a deactivated coupon, and a first redemption
  whose commit the store fails.
\<close>

theorem RecordCouponUsage_examples:
  "RecordCouponUsage no_faults (store0\<lparr>coupon_usages := []\<rparr>) (usage_row 10 102 77) =
     (None, store0\<lparr>coupon_usages := [usage_row 10 102 77]\<rparr>) \<and>
   RecordCouponUsage no_faults (store0\<lparr>coupon_usages := [usage_row 10 102 77]\<rparr>) (usage_row 11 102 78) =
     (None, store0\<lparr>coupon_usages := [usage_row 10 102 77, usage_row 11 102 78]\<rparr>) \<and>
   RecordCouponUsage no_faults (store0\<lparr>coupon_usages := [usage_row 10 102 77]\<rparr>) (usage_row 11 102 77) =
     (Some (errors_New ''one-time coupon already used''),
      store0\<lparr>coupon_usages := [usage_row 10 102 77]\<rparr>) \<and>
   RecordCouponUsage no_faults
      (store0\<lparr>coupon_usages := map (\<lambda>i. usage_row i 101 77) [10, 11, 12, 13, 14]\<rparr>)
      (usage_row 15 101 77) =
     (Some (errors_New ''coupon usage limit exceeded''),
      store0\<lparr>coupon_usages := map (\<lambda>i. usage_row i 101 77) [10, 11, 12, 13, 14]\<rparr>) \<and>
   RecordCouponUsage no_faults
      (store0\<lparr>coupon_usages := map (\<lambda>i. usage_row i 101 77) [10, 11, 12, 13]\<rparr>) (usage_row 14 101 77) =
     (None, store0\<lparr>coupon_usages := map (\<lambda>i. usage_row i 101 77) [10, 11, 12, 13, 14]\<rparr>) \<and>
   RecordCouponUsage no_faults \<lparr>coupons = [save20\<lparr>IsActive := False\<rparr>], coupon_usages = []\<rparr>
      (usage_row 10 101 77) =
     (Some ErrRecordNotFound, \<lparr>coupons = [save20\<lparr>IsActive := False\<rparr>], coupon_usages = []\<rparr>) \<and>
   RecordCouponUsage (no_faults\<lparr>commit_fault := Some (DriverError ''connection lost'')\<rparr>)
      store0 (usage_row 10 102 77) = (Some (DriverError ''connection lost''), store0)"
proof -
  note spec = RecordCouponUsage_spec [where f = no_faults]
  note facts = fetch_active_store0 usage_row_sel example_coupon_fields usage_count_def
    usage_type_distinct
  have first: "RecordCouponUsage no_faults (store0\<lparr>coupon_usages := []\<rparr>) (usage_row 10 102 77) =
      (None, store0\<lparr>coupon_usages := [usage_row 10 102 77]\<rparr>)"
    using spec [of "store0\<lparr>coupon_usages := []\<rparr>" "usage_row 10 102 77" once50]
    by (simp add: facts)
  have other_user: "RecordCouponUsage no_faults (store0\<lparr>coupon_usages := [usage_row 10 102 77]\<rparr>)
        (usage_row 11 102 78) =
      (None, store0\<lparr>coupon_usages := [usage_row 10 102 77, usage_row 11 102 78]\<rparr>)"
    using spec [of "store0\<lparr>coupon_usages := [usage_row 10 102 77]\<rparr>" "usage_row 11 102 78" once50]
    by (simp add: facts)
  have second: "RecordCouponUsage no_faults (store0\<lparr>coupon_usages := [usage_row 10 102 77]\<rparr>)
        (usage_row 11 102 77) =
      (Some (errors_New ''one-time coupon already used''),
       store0\<lparr>coupon_usages := [usage_row 10 102 77]\<rparr>)"
    using spec [of "store0\<lparr>coupon_usages := [usage_row 10 102 77]\<rparr>" "usage_row 11 102 77" once50]
    by (simp add: facts prod_eq_iff)
  have sixth: "RecordCouponUsage no_faults
        (store0\<lparr>coupon_usages := map (\<lambda>i. usage_row i 101 77) [10, 11, 12, 13, 14]\<rparr>)
        (usage_row 15 101 77) =
      (Some (errors_New ''coupon usage limit exceeded''),
       store0\<lparr>coupon_usages := map (\<lambda>i. usage_row i 101 77) [10, 11, 12, 13, 14]\<rparr>)"
    using spec [of "store0\<lparr>coupon_usages := map (\<lambda>i. usage_row i 101 77) [10, 11, 12, 13, 14]\<rparr>"
        "usage_row 15 101 77" save20]
    by (simp add: facts prod_eq_iff)
  have fifth: "RecordCouponUsage no_faults
        (store0\<lparr>coupon_usages := map (\<lambda>i. usage_row i 101 77) [10, 11, 12, 13]\<rparr>) (usage_row 14 101 77) =
      (None, store0\<lparr>coupon_usages := map (\<lambda>i. usage_row i 101 77) [10, 11, 12, 13, 14]\<rparr>)"
    using spec [of "store0\<lparr>coupon_usages := map (\<lambda>i. usage_row i 101 77) [10, 11, 12, 13]\<rparr>"
        "usage_row 14 101 77" save20]
    by (simp add: facts)
  have inactive: "RecordCouponUsage no_faults
        \<lparr>coupons = [save20\<lparr>IsActive := False\<rparr>], coupon_usages = []\<rparr> (usage_row 10 101 77) =
      (Some ErrRecordNotFound, \<lparr>coupons = [save20\<lparr>IsActive := False\<rparr>], coupon_usages = []\<rparr>)"
    using spec [of "\<lparr>coupons = [save20\<lparr>IsActive := False\<rparr>], coupon_usages = []\<rparr>"
        "usage_row 10 101 77" save20]
    by (simp add: usage_row_sel)
  let ?lost = "no_faults\<lparr>commit_fault := Some (DriverError ''connection lost'')\<rparr>"
  have "fetch_active store0 102 = Inr once50"
    using fetch_active_store0(2) [of "[]"] by (simp add: store0_no_usages)
  then have "fst (RecordCouponUsage ?lost store0 (usage_row 10 102 77)) =
      Some (DriverError ''connection lost'')"
    by (simp add: RecordCouponUsage_def Transaction_def RecordCouponUsage_body_def
        fetch_active_def one_time_check_def multi_use_check_def gorm_Count_def gorm_Create_def
        no_faults_def usage_row_sel example_coupon_fields usage_type_distinct store0_sel)
  with RecordCouponUsage_spec [of store0 "usage_row 10 102 77" once50 ?lost]
  have lost: "RecordCouponUsage ?lost store0 (usage_row 10 102 77) =
      (Some (DriverError ''connection lost''), store0)"
    by (simp add: prod_eq_iff)
  from first other_user second sixth fifth inactive lost show ?thesis
    by blast
qed

section \<open>Validation\<close>

lemma GetByCode_error:
  "GetByCode f db code = Inl e \<longleftrightarrow> first_fault f = Some e \<and> e \<noteq> ErrRecordNotFound"
  by (cases "first_fault f")
    (auto simp: GetByCode_def gorm_First_def split: sum.splits list.splits)

lemma GetByCode_found:
  assumes "GetByCode f db code = Inr (Some coupon)"
  shows "first_fault f = None \<and> coupon \<in> set (coupons db) \<and> Coupon.Code coupon = code \<and> IsActive coupon"
proof (cases "first_fault f")
  case None
  with assms have "gorm_First None Coupon.ID (\<lambda>c. Coupon.Code c = code \<and> IsActive c = True) (coupons db) = Inr coupon"
    by (auto simp: GetByCode_def split: sum.splits if_splits)
  from gorm_First_found [OF this] None show ?thesis
    by simp
next
  case (Some e)
  with assms show ?thesis
    by (auto simp: GetByCode_def gorm_First_def split: if_splits)
qed

lemma GetByCode_not_found:
  assumes "\<forall>c \<in> set (coupons db). Coupon.Code c = code \<longrightarrow> \<not> IsActive c" "first_fault f = None"
  shows "GetByCode f db code = Inr None"
proof -
  have "gorm_First None Coupon.ID (\<lambda>c. Coupon.Code c = code \<and> IsActive c = True) (coupons db) =
      Inl ErrRecordNotFound"
    using assms(1) by (simp add: gorm_First_not_found)
  with assms(2) show ?thesis
    by (simp add: GetByCode_def)
qed

lemma filter_filter_implied:
  "(\<And>x. P x \<Longrightarrow> Q x) \<Longrightarrow> filter P (filter Q xs) = filter P xs"
  by (induction xs) auto

lemma GetByCode_active_rows:
  "GetByCode f (db\<lparr>coupons := filter IsActive (coupons db)\<rparr>) code = GetByCode f db code"
proof -
  have sel: "coupons (db\<lparr>coupons := filter IsActive (coupons db)\<rparr>) = filter IsActive (coupons db)"
    by simp
  have flt: "filter (\<lambda>c. Coupon.Code c = code \<and> IsActive c = True) (filter IsActive (coupons db)) =
      filter (\<lambda>c. Coupon.Code c = code \<and> IsActive c = True) (coupons db)"
    by (rule filter_filter_implied) simp
  show ?thesis
    unfolding GetByCode_def gorm_First_def sel flt ..
qed

lemma GetUserCouponUsage_count:
  "GetUserCouponUsage f db couponID userID =
     (case count_fault f of Some e \<Rightarrow> Inl e | None \<Rightarrow> Inr (usage_count db couponID userID))"
  by (simp add: GetUserCouponUsage_def gorm_Count_def usage_count_def split: option.splits)

lemma usage_count_coupons: "usage_count (db\<lparr>coupons := cs\<rparr>) = usage_count db"
  by (simp add: usage_count_def fun_eq_iff)

lemma GetUserCouponUsage_coupons:
  "GetUserCouponUsage f (db\<lparr>coupons := cs\<rparr>) couponID userID = GetUserCouponUsage f db couponID userID"
  by (simp add: GetUserCouponUsage_def)

lemma ValidateCoupon_store: "snd (ValidateCoupon f db input) = db"
  by (simp add: ValidateCoupon_def split: sum.splits option.splits)

lemma ValidateCoupon_result:
  "fst (ValidateCoupon f db input) =
     (case GetByCode f db (ValidateCouponInput.Code input) of
        Inl err \<Rightarrow> Inl err
      | Inr None \<Rightarrow> Inr (declined ''coupon not found'')
      | Inr (Some coupon) \<Rightarrow>
          if \<not> Coupon_IsValid coupon (OrderTotal input) (Timestamp input)
          then Inr (declined ''coupon is not valid for this order'')
          else if \<not> isApplicableToCoupon coupon (CartItems input)
          then Inr (declined ''coupon is not applicable to any items in cart'')
          else
            (case count_fault f of
               Some err \<Rightarrow> Inl err
             | None \<Rightarrow>
                 if UsageType coupon = OneTime \<and>
                    usage_count db (Coupon.ID coupon) (ValidateCouponInput.UserID input) > 0
                 then Inr (declined ''one-time coupon already used'')
                 else if UsageType coupon = MultiUse \<and>
                    usage_count db (Coupon.ID coupon) (ValidateCouponInput.UserID input)
                      \<ge> MaxUsagePerUser coupon
                 then Inr (declined ''coupon usage limit exceeded'')
                 else Inr \<lparr>IsValid = True,
                           ItemsDiscount = Coupon_CalculateDiscount coupon (OrderTotal input),
                           ChargesDiscount = Finite 0,
                           Message = ''coupon applied successfully''\<rparr>))"
proof (cases "GetByCode f db (ValidateCouponInput.Code input)")
  case (Inl err)
  then show ?thesis
    by (simp add: ValidateCoupon_def)
next
  case (Inr found)
  show ?thesis
  proof (cases found)
    case None
    with Inr show ?thesis
      by (simp add: ValidateCoupon_def)
  next
    case (Some coupon)
    with Inr show ?thesis
      by (cases "count_fault f") (auto simp: ValidateCoupon_def GetUserCouponUsage_count)
  qed
qed

lemma ValidateCoupon_active_rows:
  "fst (ValidateCoupon f (db\<lparr>coupons := filter IsActive (coupons db)\<rparr>) input) =
   fst (ValidateCoupon f db input)"
  unfolding ValidateCoupon_result GetByCode_active_rows usage_count_coupons ..

text \<open>The example coupons, carts and users, evaluated once.\<close>

lemma checkout_sel:
  "ValidateCouponInput.Code (checkout code cart amount) = code"
  "CartItems (checkout code cart amount) = cart"
  "OrderTotal (checkout code cart amount) = amount"
  "ValidateCouponInput.UserID (checkout code cart amount) = 77"
  "Timestamp (checkout code cart amount) = 1200"
  by (simp_all add: checkout_def)

lemma GetByCode_store0:
  "first_fault f = None \<Longrightarrow> GetByCode f (store0\<lparr>coupon_usages := us\<rparr>) ''SAVE20'' = Inr (Some save20)"
  "first_fault f = None \<Longrightarrow> GetByCode f (store0\<lparr>coupon_usages := us\<rparr>) ''ONCE50'' = Inr (Some once50)"
  "first_fault f = None \<Longrightarrow> GetByCode f (store0\<lparr>coupon_usages := us\<rparr>) ''FLASH10'' = Inr (Some flash10)"
  "first_fault f = None \<Longrightarrow> GetByCode f (store0\<lparr>coupon_usages := us\<rparr>) ''NOPE'' = Inr None"
  by (simp_all add: GetByCode_def gorm_First_def store0_def save20_def once50_def flash10_def)

lemma GetByCode_store0_plain:
  "first_fault f = None \<Longrightarrow> GetByCode f store0 ''SAVE20'' = Inr (Some save20)"
  "first_fault f = None \<Longrightarrow> GetByCode f store0 ''ONCE50'' = Inr (Some once50)"
  "first_fault f = None \<Longrightarrow> GetByCode f store0 ''FLASH10'' = Inr (Some flash10)"
  "first_fault f = None \<Longrightarrow> GetByCode f store0 ''NOPE'' = Inr None"
  using GetByCode_store0 [of f "[]"] by (simp_all add: store0_no_usages)

lemma example_checks:
  "Coupon_IsValid save20 700 1200" "\<not> Coupon_IsValid save20 50 1200"
  "Coupon_IsValid once50 700 1200" "Coupon_IsValid flash10 700 1200"
  "isApplicableToCoupon save20 cart" "isApplicableToCoupon once50 [med_123]"
  "\<not> isApplicableToCoupon once50 [med_456]" "isApplicableToCoupon flash10 [med_123]"
  by (simp_all add: Coupon_IsValid_def After_def Before_def isApplicableToCoupon_def
      save20_def once50_def flash10_def med_123_def med_456_def)

lemma example_ids:
  "Coupon.ID save20 = 101" "Coupon.ID once50 = 102" "Coupon.ID flash10 = 103"
  by (simp_all add: save20_def once50_def flash10_def)

lemma no_faults_sel:
  "begin_fault no_faults = None" "first_fault no_faults = None" "find_fault no_faults = None"
  "count_fault no_faults = None" "create_fault no_faults = None" "commit_fault no_faults = None"
  by (simp_all add: no_faults_def)

lemma ten_percent_of_700: "f64_mul 700 (f64_div 10 100) = Finite 70"
  by code_simp

lemma example_discounts:
  "Coupon_CalculateDiscount save20 700 = Finite 140"
  "Coupon_CalculateDiscount once50 700 = Finite 50"
  "Coupon_CalculateDiscount flash10 700 = Finite 70"
  by (simp_all add: Coupon_CalculateDiscount_def save20_def once50_def flash10_def
      discount_type_distinct twenty_percent_of_700 ten_percent_of_700)

lemmas example_facts = checkout_sel no_faults_sel GetByCode_store0 GetByCode_store0_plain
  example_checks example_ids
  example_coupon_fields example_discounts usage_type_distinct usage_row_sel

text \<open>
  Claim C6. \<^verbatim>\<open>ValidateCoupon\<close> checks in the order lookup, validity predicate,
  applicability, usage limits, and the first failing check decides: later checks and
  later store calls play no part. A code whose coupons are all inactive is answered
  like an unknown code, and removing the inactive rows from the table changes no
  answer. Every declined outcome is a result with \<^verbatim>\<open>IsValid\<close> false and its message;
  the call returns an error only when the store reported that error for the lookup or
  for the count, and it returns a result whenever the store answers both.
\<close>

theorem ValidateCoupon_order:
  "(GetByCode f db (ValidateCouponInput.Code input) = Inr None \<longrightarrow>
      fst (ValidateCoupon f db input) = Inr (declined ''coupon not found'')) \<and>
   (GetByCode f db (ValidateCouponInput.Code input) = Inr (Some coupon) \<longrightarrow>
      (\<not> Coupon_IsValid coupon (OrderTotal input) (Timestamp input) \<longrightarrow>
         fst (ValidateCoupon f db input) = Inr (declined ''coupon is not valid for this order'')) \<and>
      (Coupon_IsValid coupon (OrderTotal input) (Timestamp input) \<and>
       \<not> isApplicableToCoupon coupon (CartItems input) \<longrightarrow>
         fst (ValidateCoupon f db input) =
           Inr (declined ''coupon is not applicable to any items in cart'')) \<and>
      (Coupon_IsValid coupon (OrderTotal input) (Timestamp input) \<and>
       isApplicableToCoupon coupon (CartItems input) \<and> count_fault f = Some e \<longrightarrow>
         fst (ValidateCoupon f db input) = Inl e) \<and>
      (Coupon_IsValid coupon (OrderTotal input) (Timestamp input) \<and>
       isApplicableToCoupon coupon (CartItems input) \<and> count_fault f = None \<longrightarrow>
         (UsageType coupon = OneTime \<and>
          usage_count db (Coupon.ID coupon) (ValidateCouponInput.UserID input) > 0 \<longrightarrow>
            fst (ValidateCoupon f db input) = Inr (declined ''one-time coupon already used'')) \<and>
         (UsageType coupon = MultiUse \<and>
          usage_count db (Coupon.ID coupon) (ValidateCouponInput.UserID input)
            \<ge> MaxUsagePerUser coupon \<longrightarrow>
            fst (ValidateCoupon f db input) = Inr (declined ''coupon usage limit exceeded'')) \<and>
         (\<not> (UsageType coupon = OneTime \<and>
              usage_count db (Coupon.ID coupon) (ValidateCouponInput.UserID input) > 0) \<and>
          \<not> (UsageType coupon = MultiUse \<and>
              usage_count db (Coupon.ID coupon) (ValidateCouponInput.UserID input)
                \<ge> MaxUsagePerUser coupon) \<longrightarrow>
            fst (ValidateCoupon f db input) =
              Inr \<lparr>IsValid = True,
                   ItemsDiscount = Coupon_CalculateDiscount coupon (OrderTotal input),
                   ChargesDiscount = Finite 0, Message = ''coupon applied successfully''\<rparr>))) \<and>
   ((\<forall>c \<in> set (coupons db). Coupon.Code c = ValidateCouponInput.Code input \<longrightarrow> \<not> IsActive c) \<and>
    first_fault f = None \<longrightarrow>
      fst (ValidateCoupon f db input) = Inr (declined ''coupon not found'')) \<and>
   fst (ValidateCoupon f (db\<lparr>coupons := filter IsActive (coupons db)\<rparr>) input) =
     fst (ValidateCoupon f db input) \<and>
   (first_fault f = Some e \<and> e \<noteq> ErrRecordNotFound \<longrightarrow> fst (ValidateCoupon f db input) = Inl e) \<and>
   (fst (ValidateCoupon f db input) = Inl e \<longrightarrow>
      (first_fault f = Some e \<and> e \<noteq> ErrRecordNotFound) \<or> count_fault f = Some e) \<and>
   (first_fault f = None \<and> count_fault f = None \<longrightarrow>
      (\<exists>out. fst (ValidateCoupon f db input) = Inr out)) \<and>
   ValidateCouponOutput.IsValid (declined msg) = False \<and> Message (declined msg) = msg"
proof -
  have lookup: "fst (ValidateCoupon f db input) = Inr (declined ''coupon not found'')"
    if "GetByCode f db (ValidateCouponInput.Code input) = Inr None"
    using that by (simp add: ValidateCoupon_result)
  have found: "(\<not> Coupon_IsValid coupon (OrderTotal input) (Timestamp input) \<longrightarrow>
         fst (ValidateCoupon f db input) = Inr (declined ''coupon is not valid for this order'')) \<and>
      (Coupon_IsValid coupon (OrderTotal input) (Timestamp input) \<and>
       \<not> isApplicableToCoupon coupon (CartItems input) \<longrightarrow>
         fst (ValidateCoupon f db input) =
           Inr (declined ''coupon is not applicable to any items in cart'')) \<and>
      (Coupon_IsValid coupon (OrderTotal input) (Timestamp input) \<and>
       isApplicableToCoupon coupon (CartItems input) \<and> count_fault f = Some e \<longrightarrow>
         fst (ValidateCoupon f db input) = Inl e) \<and>
      (Coupon_IsValid coupon (OrderTotal input) (Timestamp input) \<and>
       isApplicableToCoupon coupon (CartItems input) \<and> count_fault f = None \<longrightarrow>
         (UsageType coupon = OneTime \<and>
          usage_count db (Coupon.ID coupon) (ValidateCouponInput.UserID input) > 0 \<longrightarrow>
            fst (ValidateCoupon f db input) = Inr (declined ''one-time coupon already used'')) \<and>
         (UsageType coupon = MultiUse \<and>
          usage_count db (Coupon.ID coupon) (ValidateCouponInput.UserID input)
            \<ge> MaxUsagePerUser coupon \<longrightarrow>
            fst (ValidateCoupon f db input) = Inr (declined ''coupon usage limit exceeded'')) \<and>
         (\<not> (UsageType coupon = OneTime \<and>
              usage_count db (Coupon.ID coupon) (ValidateCouponInput.UserID input) > 0) \<and>
          \<not> (UsageType coupon = MultiUse \<and>
              usage_count db (Coupon.ID coupon) (ValidateCouponInput.UserID input)
                \<ge> MaxUsagePerUser coupon) \<longrightarrow>
            fst (ValidateCoupon f db input) =
              Inr \<lparr>IsValid = True,
                   ItemsDiscount = Coupon_CalculateDiscount coupon (OrderTotal input),
                   ChargesDiscount = Finite 0, Message = ''coupon applied successfully''\<rparr>))"
    if "GetByCode f db (ValidateCouponInput.Code input) = Inr (Some coupon)"
    using that by (simp add: ValidateCoupon_result usage_type_distinct)
  have inactive: "fst (ValidateCoupon f db input) = Inr (declined ''coupon not found'')"
    if "\<forall>c \<in> set (coupons db). Coupon.Code c = ValidateCouponInput.Code input \<longrightarrow> \<not> IsActive c"
      "first_fault f = None"
    using GetByCode_not_found [OF that] by (simp add: ValidateCoupon_result)
  have propagates: "fst (ValidateCoupon f db input) = Inl e"
    if "first_fault f = Some e" "e \<noteq> ErrRecordNotFound"
  proof -
    from that have "GetByCode f db (ValidateCouponInput.Code input) = Inl e"
      by (simp add: GetByCode_error)
    then show ?thesis
      by (simp add: ValidateCoupon_result)
  qed
  have errors: "(first_fault f = Some e' \<and> e' \<noteq> ErrRecordNotFound) \<or> count_fault f = Some e'"
    if "fst (ValidateCoupon f db input) = Inl e'" for e'
  proof -
    from that have "GetByCode f db (ValidateCouponInput.Code input) = Inl e' \<or> count_fault f = Some e'"
      by (auto simp: ValidateCoupon_result split: sum.splits option.splits if_splits)
    then show ?thesis
      by (auto simp: GetByCode_error)
  qed
  have answers: "\<exists>out. fst (ValidateCoupon f db input) = Inr out"
    if "first_fault f = None" "count_fault f = None"
  proof (cases "fst (ValidateCoupon f db input)")
    case (Inl err)
    from errors [OF Inl] that show ?thesis
      by simp
  next
    case (Inr out)
    then show ?thesis
      by blast
  qed
  have out: "ValidateCouponOutput.IsValid (declined msg) = False \<and> Message (declined msg) = msg"
    by (simp add: declined_def)
  from lookup found inactive ValidateCoupon_active_rows [of f db input] propagates errors [of e]
    answers out
  show ?thesis
    by blast
qed

text \<open>
  One request for each outcome. A count that times out is not even sent for an order
  below the minimum; it fails the validation of an order that passes the first checks.
\<close>

theorem ValidateCoupon_order_examples:
  "fst (ValidateCoupon no_faults store0 (checkout ''NOPE'' [med_123] 700)) =
     Inr (declined ''coupon not found'') \<and>
   fst (ValidateCoupon no_faults (store0\<lparr>coupons := [save20\<lparr>IsActive := False\<rparr>]\<rparr>)
          (checkout ''SAVE20'' [med_123] 700)) = Inr (declined ''coupon not found'') \<and>
   fst (ValidateCoupon (no_faults\<lparr>count_fault := Some (DriverError ''timeout'')\<rparr>) store0
          (checkout ''SAVE20'' [med_123] 50)) = Inr (declined ''coupon is not valid for this order'') \<and>
   fst (ValidateCoupon no_faults (store0\<lparr>coupon_usages := [usage_row 10 102 77]\<rparr>)
          (checkout ''ONCE50'' [med_456] 700)) =
     Inr (declined ''coupon is not applicable to any items in cart'') \<and>
   fst (ValidateCoupon no_faults (store0\<lparr>coupon_usages := [usage_row 10 102 77]\<rparr>)
          (checkout ''ONCE50'' [med_123] 700)) = Inr (declined ''one-time coupon already used'') \<and>
   fst (ValidateCoupon no_faults
          (store0\<lparr>coupon_usages := map (\<lambda>i. usage_row i 101 77) [10, 11, 12, 13, 14]\<rparr>)
          (checkout ''SAVE20'' [med_123] 700)) = Inr (declined ''coupon usage limit exceeded'') \<and>
   fst (ValidateCoupon no_faults
          (store0\<lparr>coupon_usages := map (\<lambda>i. usage_row i 101 77) [10, 11, 12, 13]\<rparr>)
          (checkout ''SAVE20'' [med_123] 700)) =
     Inr \<lparr>IsValid = True, ItemsDiscount = Finite 140, ChargesDiscount = Finite 0,
          Message = ''coupon applied successfully''\<rparr> \<and>
   fst (ValidateCoupon (no_faults\<lparr>count_fault := Some (DriverError ''timeout'')\<rparr>) store0
          (checkout ''SAVE20'' [med_123] 700)) = Inl (DriverError ''timeout'') \<and>
   fst (ValidateCoupon (no_faults\<lparr>first_fault := Some (DriverError ''connection refused'')\<rparr>)
          store0 (checkout ''SAVE20'' [med_123] 700)) = Inl (DriverError ''connection refused'')"
proof -
  note facts = example_facts usage_count_def
  let ?timeout = "no_faults\<lparr>count_fault := Some (DriverError ''timeout'')\<rparr>"
  let ?refused = "no_faults\<lparr>first_fault := Some (DriverError ''connection refused'')\<rparr>"
  have unknown: "fst (ValidateCoupon no_faults store0 (checkout ''NOPE'' [med_123] 700)) =
      Inr (declined ''coupon not found'')"
    using ValidateCoupon_order [of no_faults store0 "checkout ''NOPE'' [med_123] 700"]
    by (simp add: facts)
  have inactive: "fst (ValidateCoupon no_faults (store0\<lparr>coupons := [save20\<lparr>IsActive := False\<rparr>]\<rparr>)
        (checkout ''SAVE20'' [med_123] 700)) = Inr (declined ''coupon not found'')"
    using ValidateCoupon_order [of no_faults "store0\<lparr>coupons := [save20\<lparr>IsActive := False\<rparr>]\<rparr>"
        "checkout ''SAVE20'' [med_123] 700"]
    by (simp add: checkout_sel no_faults_sel)
  have invalid: "fst (ValidateCoupon ?timeout store0 (checkout ''SAVE20'' [med_123] 50)) =
      Inr (declined ''coupon is not valid for this order'')"
    using ValidateCoupon_order [of ?timeout store0 "checkout ''SAVE20'' [med_123] 50" save20]
    by (simp add: facts)
  have inapplicable: "fst (ValidateCoupon no_faults (store0\<lparr>coupon_usages := [usage_row 10 102 77]\<rparr>)
        (checkout ''ONCE50'' [med_456] 700)) =
      Inr (declined ''coupon is not applicable to any items in cart'')"
    using ValidateCoupon_order [of no_faults "store0\<lparr>coupon_usages := [usage_row 10 102 77]\<rparr>"
        "checkout ''ONCE50'' [med_456] 700" once50]
    by (simp add: facts)
  have used: "fst (ValidateCoupon no_faults (store0\<lparr>coupon_usages := [usage_row 10 102 77]\<rparr>)
        (checkout ''ONCE50'' [med_123] 700)) = Inr (declined ''one-time coupon already used'')"
    using ValidateCoupon_order [of no_faults "store0\<lparr>coupon_usages := [usage_row 10 102 77]\<rparr>"
        "checkout ''ONCE50'' [med_123] 700" once50]
    by (simp add: facts)
  have exceeded: "fst (ValidateCoupon no_faults
        (store0\<lparr>coupon_usages := map (\<lambda>i. usage_row i 101 77) [10, 11, 12, 13, 14]\<rparr>)
        (checkout ''SAVE20'' [med_123] 700)) = Inr (declined ''coupon usage limit exceeded'')"
    using ValidateCoupon_order [of no_faults
        "store0\<lparr>coupon_usages := map (\<lambda>i. usage_row i 101 77) [10, 11, 12, 13, 14]\<rparr>"
        "checkout ''SAVE20'' [med_123] 700" save20]
    by (simp add: facts)
  have applied: "fst (ValidateCoupon no_faults
        (store0\<lparr>coupon_usages := map (\<lambda>i. usage_row i 101 77) [10, 11, 12, 13]\<rparr>)
        (checkout ''SAVE20'' [med_123] 700)) =
      Inr \<lparr>IsValid = True, ItemsDiscount = Finite 140, ChargesDiscount = Finite 0,
           Message = ''coupon applied successfully''\<rparr>"
    using ValidateCoupon_order [of no_faults
        "store0\<lparr>coupon_usages := map (\<lambda>i. usage_row i 101 77) [10, 11, 12, 13]\<rparr>"
        "checkout ''SAVE20'' [med_123] 700" save20]
    by (simp add: facts)
  have timeout: "fst (ValidateCoupon ?timeout store0 (checkout ''SAVE20'' [med_123] 700)) =
      Inl (DriverError ''timeout'')"
    using ValidateCoupon_order [of ?timeout store0 "checkout ''SAVE20'' [med_123] 700" save20
        "DriverError ''timeout''"]
    by (simp add: facts)
  have refused: "fst (ValidateCoupon ?refused store0 (checkout ''SAVE20'' [med_123] 700)) =
      Inl (DriverError ''connection refused'')"
    using ValidateCoupon_order [of ?refused store0 "checkout ''SAVE20'' [med_123] 700" save20
        "DriverError ''connection refused''"]
    by simp
  from unknown inactive invalid inapplicable used exceeded applied timeout refused
  show ?thesis
    by blast
qed

lemma Service_RecordCouponUsage_row:
  "Service_RecordCouponUsage f db i 1200 1200 c u i = RecordCouponUsage f db (usage_row i c u)"
  by (simp add: Service_RecordCouponUsage_def usage_row_def)

text \<open>
  Claim C7. \<^verbatim>\<open>ValidateCoupon\<close> returns the store it was given, whatever the request
  and whatever the store's faults, so validating again, the store answering as before,
  gives the same answer. For \<^verbatim>\<open>SAVE20\<close> (multi-use, 20 percent, at most 5 per user)
  with one redemption recorded for the user, an order of 700 is valid with a discount of
  140; the end-to-end scenario (validate, record the redemption, validate again) gives
  140 both times.
\<close>

theorem ValidateCoupon_frame:
  "snd (ValidateCoupon f db input) = db \<and>
   fst (ValidateCoupon f (snd (ValidateCoupon f db input)) input) = fst (ValidateCoupon f db input) \<and>
   ValidateCoupon no_faults (store0\<lparr>coupon_usages := [usage_row 10 101 77]\<rparr>)
       (checkout ''SAVE20'' [med_123] 700) =
     (Inr \<lparr>IsValid = True, ItemsDiscount = Finite 140, ChargesDiscount = Finite 0,
           Message = ''coupon applied successfully''\<rparr>,
      store0\<lparr>coupon_usages := [usage_row 10 101 77]\<rparr>) \<and>
   ValidateCoupon no_faults store0 (checkout ''SAVE20'' [med_123] 700) =
     (Inr \<lparr>IsValid = True, ItemsDiscount = Finite 140, ChargesDiscount = Finite 0,
           Message = ''coupon applied successfully''\<rparr>, store0) \<and>
   Service_RecordCouponUsage no_faults store0 10 1200 1200 101 77 10 =
     (None, store0\<lparr>coupon_usages := [usage_row 10 101 77]\<rparr>)"
proof -
  have frame: "snd (ValidateCoupon f db input) = db"
    by (rule ValidateCoupon_store)
  have again: "ValidateCoupon no_faults (store0\<lparr>coupon_usages := [usage_row 10 101 77]\<rparr>)
       (checkout ''SAVE20'' [med_123] 700) =
     (Inr \<lparr>IsValid = True, ItemsDiscount = Finite 140, ChargesDiscount = Finite 0,
           Message = ''coupon applied successfully''\<rparr>,
      store0\<lparr>coupon_usages := [usage_row 10 101 77]\<rparr>)"
    by (simp add: prod_eq_iff ValidateCoupon_store ValidateCoupon_result example_facts
        usage_count_def)
  have fresh: "ValidateCoupon no_faults store0 (checkout ''SAVE20'' [med_123] 700) =
     (Inr \<lparr>IsValid = True, ItemsDiscount = Finite 140, ChargesDiscount = Finite 0,
           Message = ''coupon applied successfully''\<rparr>, store0)"
    by (simp add: prod_eq_iff ValidateCoupon_store ValidateCoupon_result example_facts
        usage_count_def store0_sel)
  have "fetch_active store0 101 = Inr save20"
    using fetch_active_store0(1) [of "[]"] by (simp add: store0_no_usages)
  then have recorded: "Service_RecordCouponUsage no_faults store0 10 1200 1200 101 77 10 =
     (None, store0\<lparr>coupon_usages := [usage_row 10 101 77]\<rparr>)"
    by (simp add: Service_RecordCouponUsage_row RecordCouponUsage_no_faults example_facts
        usage_count_def store0_sel)
  from frame again fresh recorded show ?thesis
    by simp
qed

text \<open>Two validations in a row, the second on the store the first returned.\<close>

theorem ValidateCoupon_frame_examples:
  "(let store1 = store0\<lparr>coupon_usages := [usage_row 10 101 77]\<rparr>;
        request = checkout ''SAVE20'' [med_123] 700;
        first = ValidateCoupon no_faults store1 request;
        second = ValidateCoupon no_faults (snd first) request
    in fst first = Inr \<lparr>IsValid = True, ItemsDiscount = Finite 140, ChargesDiscount = Finite 0,
                         Message = ''coupon applied successfully''\<rparr> \<and>
       fst second = fst first \<and> snd first = store1 \<and> snd second = store1)"
  using ValidateCoupon_frame [of no_faults "store0\<lparr>coupon_usages := [usage_row 10 101 77]\<rparr>"
      "checkout ''SAVE20'' [med_123] 700"]
  by (simp add: Let_def)

section \<open>Listing the applicable coupons\<close>

lemma applicable_loop_filter:
  "applicable_loop cartItems acc cs = acc @ filter (\<lambda>c. isApplicableToCoupon c cartItems) cs"
  by (induction cs arbitrary: acc) simp_all

lemma GetApplicableCoupons_no_faults:
  "GetApplicableCoupons no_faults db now cart amount =
     (Inr (filter (\<lambda>c. IsActive c \<and> now < ExpiryDate c \<and> MinOrderValue c \<le> amount \<and>
                      isApplicableToCoupon c cart) (coupons db)), db)"
  by (simp add: GetApplicableCoupons_def gorm_Find_def no_faults_sel applicable_loop_filter
      conj_commute conj_left_commute cong: conj_cong)

lemma example_listing_fields:
  "IsActive save20" "IsActive once50" "IsActive flash10"
  "ExpiryDate save20 = 2000" "ExpiryDate once50 = 2000" "ExpiryDate flash10 = 2000"
  "MinOrderValue save20 = 100" "MinOrderValue once50 = 0" "MinOrderValue flash10 = 0"
  by (simp_all add: save20_def once50_def flash10_def)

lemma example_matches:
  "isApplicableToCoupon save20 cart" "isApplicableToCoupon once50 [med_123]"
  "\<not> isApplicableToCoupon once50 [med_456]" "isApplicableToCoupon flash10 [med_123]"
  "\<not> isApplicableToCoupon flash10 [med_456]"
  by (simp_all add: isApplicableToCoupon_def save20_def once50_def flash10_def med_123_def
      med_456_def)

text \<open>
  What the listing computes. With a store that answers, \<^verbatim>\<open>GetApplicableCoupons\<close>
  returns the stored coupons that are active, have a minimum order value of at most the
  order total, match the cart and pass the query's expiry condition
  \<^verbatim>\<open>expiry_date > now\<close>. The usage ledger plays no part in the result, and the store
  is returned as it was.
\<close>

lemma GetApplicableCoupons_listing:
  "GetApplicableCoupons no_faults db now cart amount =
     (Inr (filter (\<lambda>c. IsActive c \<and> now < ExpiryDate c \<and> MinOrderValue c \<le> amount \<and>
                      isApplicableToCoupon c cart) (coupons db)), db) \<and>
   fst (GetApplicableCoupons f (db\<lparr>coupon_usages := us\<rparr>) now cart amount) =
     fst (GetApplicableCoupons f db now cart amount) \<and>
   snd (GetApplicableCoupons f db now cart amount) = db"
  by (simp add: GetApplicableCoupons_no_faults)
    (simp add: GetApplicableCoupons_def split: sum.splits)

text \<open>
  The listing at time 1999, one tick before the three coupons expire: all three for a
  cart with \<open>med_123\<close>, also when user 77 has used up the one-time coupon.
\<close>

lemma GetApplicableCoupons_listing_examples:
  "GetApplicableCoupons no_faults (store0\<lparr>coupon_usages := [usage_row 10 102 77]\<rparr>) 1999
       [med_123] 700 =
     (Inr [save20, once50, flash10], store0\<lparr>coupon_usages := [usage_row 10 102 77]\<rparr>) \<and>
   fst (GetApplicableCoupons no_faults store0 1999 [med_123] 700) = Inr [save20, once50, flash10] \<and>
   fst (GetApplicableCoupons no_faults store0 1999 [med_456] 700) = Inr [save20] \<and>
   fst (GetApplicableCoupons no_faults store0 1999 [med_123] 50) = Inr [once50, flash10] \<and>
   fst (GetApplicableCoupons no_faults (store0\<lparr>coupons := [save20\<lparr>IsActive := False\<rparr>]\<rparr>) 1999
          [med_123] 700) = Inr []"
  using GetApplicableCoupons_listing [of "store0\<lparr>coupon_usages := [usage_row 10 102 77]\<rparr>" 1999
      "[med_123]" 700]
    GetApplicableCoupons_listing [of store0 1999 "[med_123]" 700]
    GetApplicableCoupons_listing [of store0 1999 "[med_456]" 700]
    GetApplicableCoupons_listing [of store0 1999 "[med_123]" 50]
    GetApplicableCoupons_listing [of "store0\<lparr>coupons := [save20\<lparr>IsActive := False\<rparr>]\<rparr>" 1999
      "[med_123]" 700]
  by (simp add: store0_sel example_listing_fields example_matches)

text \<open>
  Claim C8. The listing is to hold exactly the coupons that are active, not expired,
  within the minimum order value and matching the cart, a coupon at its expiry instant
  counting as not expired, as for the validity predicate. The code misses that instant:
  at time 2000 \<^verbatim>\<open>SAVE20\<close> is valid for \<^verbatim>\<open>IsValid\<close> and matches the cart, all three
  stored coupons pass the four conditions, and the listing is empty, because the query
  compares with \<^verbatim>\<open>expiry_date > now\<close> where \<^verbatim>\<open>IsValid\<close> rejects only a time after
  the expiry date.
\<close>

theorem GetApplicableCoupons_at_expiry:
  "Coupon_IsValid save20 700 2000 \<and> isApplicableToCoupon save20 [med_123] \<and>
   filter (\<lambda>c. IsActive c \<and> \<not> After 2000 (ExpiryDate c) \<and> MinOrderValue c \<le> 700 \<and>
                isApplicableToCoupon c [med_123]) (coupons store0) = [save20, once50, flash10] \<and>
   fst (GetApplicableCoupons no_faults store0 2000 [med_123] 700) = Inr []"
proof -
  have valid: "Coupon_IsValid save20 700 2000"
    by (simp add: Coupon_IsValid_def After_def save20_def)
  have listed: "fst (GetApplicableCoupons no_faults store0 2000 [med_123] 700) = Inr []"
    by (simp add: GetApplicableCoupons_no_faults store0_sel example_listing_fields)
  have claimed: "filter (\<lambda>c. IsActive c \<and> \<not> After 2000 (ExpiryDate c) \<and> MinOrderValue c \<le> 700 \<and>
                isApplicableToCoupon c [med_123]) (coupons store0) = [save20, once50, flash10]"
    by (simp add: store0_sel example_listing_fields example_matches After_def)
  from valid listed claimed example_matches(1) [of "[med_123]"] show ?thesis
    by simp
qed

section \<open>Time-based coupons\<close>

lemma fetch_active_usages:
  "fetch_active (db\<lparr>coupon_usages := us\<rparr>) couponID = fetch_active db couponID"
  by (simp add: fetch_active_def)

lemma record_all_time_based:
  "fetch_active db couponID = Inr coupon \<Longrightarrow> UsageType coupon = TimeBased \<Longrightarrow>
   \<forall>u \<in> set usages. CouponID u = couponID \<Longrightarrow>
     record_all no_faults db usages =
       (replicate (length usages) None, db\<lparr>coupon_usages := coupon_usages db @ usages\<rparr>)"
proof (induction usages arbitrary: db)
  case Nil
  then show ?case
    by simp
next
  case (Cons usage rest)
  let ?db' = "db\<lparr>coupon_usages := coupon_usages db @ [usage]\<rparr>"
  from Cons.prems have step: "RecordCouponUsage no_faults db usage = (None, ?db')"
    by (simp add: RecordCouponUsage_no_faults usage_type_distinct)
  from Cons.prems have "fetch_active ?db' couponID = Inr coupon"
    by (simp add: fetch_active_usages)
  with Cons.prems have "record_all no_faults ?db' rest =
      (replicate (length rest) None, ?db'\<lparr>coupon_usages := coupon_usages ?db' @ rest\<rparr>)"
    by (intro Cons.IH) simp_all
  with step show ?case
    by simp
qed

text \<open>
  Claim C9. For a coupon of usage type \<^verbatim>\<open>time_based\<close> no per-user limit is enforced:
  \<^verbatim>\<open>ValidateCoupon\<close> accepts it whatever the ledger holds once the validity and
  applicability checks pass, \<^verbatim>\<open>RecordCouponUsage\<close> appends the usage whatever the
  ledger holds, and any number of redemptions recorded one after the other all succeed,
  whatever \<^verbatim>\<open>MaxUsagePerUser\<close> is.
\<close>

theorem time_based_unlimited:
  "(GetByCode f db (ValidateCouponInput.Code input) = Inr (Some coupon) \<and>
    UsageType coupon = TimeBased \<and>
    Coupon_IsValid coupon (OrderTotal input) (Timestamp input) \<and>
    isApplicableToCoupon coupon (CartItems input) \<and> count_fault f = None \<longrightarrow>
      fst (ValidateCoupon f db input) =
        Inr \<lparr>IsValid = True,
             ItemsDiscount = Coupon_CalculateDiscount coupon (OrderTotal input),
             ChargesDiscount = Finite 0, Message = ''coupon applied successfully''\<rparr>) \<and>
   (fetch_active db (CouponID usage) = Inr coupon \<and> UsageType coupon = TimeBased \<longrightarrow>
      RecordCouponUsage no_faults db usage =
        (None, db\<lparr>coupon_usages := coupon_usages db @ [usage]\<rparr>)) \<and>
   (fetch_active db couponID = Inr coupon \<and> UsageType coupon = TimeBased \<and>
    (\<forall>u \<in> set usages. CouponID u = couponID) \<longrightarrow>
      record_all no_faults db usages =
        (replicate (length usages) None, db\<lparr>coupon_usages := coupon_usages db @ usages\<rparr>))"
proof -
  have validate: "fst (ValidateCoupon f db input) =
        Inr \<lparr>IsValid = True,
             ItemsDiscount = Coupon_CalculateDiscount coupon (OrderTotal input),
             ChargesDiscount = Finite 0, Message = ''coupon applied successfully''\<rparr>"
    if "GetByCode f db (ValidateCouponInput.Code input) = Inr (Some coupon)"
      "UsageType coupon = TimeBased"
      "Coupon_IsValid coupon (OrderTotal input) (Timestamp input)"
      "isApplicableToCoupon coupon (CartItems input)" "count_fault f = None"
    using that by (simp add: ValidateCoupon_result usage_type_distinct)
  have once: "RecordCouponUsage no_faults db usage =
        (None, db\<lparr>coupon_usages := coupon_usages db @ [usage]\<rparr>)"
    if "fetch_active db (CouponID usage) = Inr coupon" "UsageType coupon = TimeBased"
    using that by (simp add: RecordCouponUsage_no_faults usage_type_distinct)
  have many: "record_all no_faults db usages =
        (replicate (length usages) None, db\<lparr>coupon_usages := coupon_usages db @ usages\<rparr>)"
    if "fetch_active db couponID = Inr coupon" "UsageType coupon = TimeBased"
      "\<forall>u \<in> set usages. CouponID u = couponID"
    using that by (rule record_all_time_based)
  from validate once many show ?thesis
    by blast
qed

text \<open>
  \<^verbatim>\<open>FLASH10\<close> allows one redemption per user on paper; user 77 has three and gets
  three more.
\<close>

theorem time_based_unlimited_examples:
  "(let ledger = map (\<lambda>i. usage_row i 103 77) [10, 11, 12];
        store3 = store0\<lparr>coupon_usages := ledger\<rparr>
    in MaxUsagePerUser flash10 = 1 \<and> usage_count store3 103 77 = 3 \<and>
       fst (ValidateCoupon no_faults store3 (checkout ''FLASH10'' [med_123] 700)) =
         Inr \<lparr>IsValid = True, ItemsDiscount = Finite 70, ChargesDiscount = Finite 0,
              Message = ''coupon applied successfully''\<rparr> \<and>
       RecordCouponUsage no_faults store3 (usage_row 13 103 77) =
         (None, store0\<lparr>coupon_usages := ledger @ [usage_row 13 103 77]\<rparr>) \<and>
       record_all no_faults store3 (map (\<lambda>i. usage_row i 103 77) [13, 14, 15]) =
         ([None, None, None],
          store0\<lparr>coupon_usages := ledger @ map (\<lambda>i. usage_row i 103 77) [13, 14, 15]\<rparr>))"
proof -
  let ?ledger = "map (\<lambda>i. usage_row i 103 77) [10, 11, 12]"
  let ?store3 = "store0\<lparr>coupon_usages := ?ledger\<rparr>"
  let ?more = "map (\<lambda>i. usage_row i 103 77) [13, 14, 15]"
  note inst = time_based_unlimited [of no_faults ?store3 "checkout ''FLASH10'' [med_123] 700"
      flash10 "usage_row 13 103 77" 103 ?more]
  have max: "MaxUsagePerUser flash10 = 1"
    by (simp add: flash10_def)
  have count: "usage_count ?store3 103 77 = 3"
    by (simp add: usage_count_def usage_row_sel)
  have validate: "fst (ValidateCoupon no_faults ?store3 (checkout ''FLASH10'' [med_123] 700)) =
      Inr \<lparr>IsValid = True, ItemsDiscount = Finite 70, ChargesDiscount = Finite 0,
           Message = ''coupon applied successfully''\<rparr>"
    using inst by (simp add: example_facts)
  have once: "RecordCouponUsage no_faults ?store3 (usage_row 13 103 77) =
      (None, store0\<lparr>coupon_usages := ?ledger @ [usage_row 13 103 77]\<rparr>)"
    using inst by (simp add: example_facts fetch_active_store0)
  have thrice: "record_all no_faults ?store3 ?more =
      ([None, None, None], store0\<lparr>coupon_usages := ?ledger @ ?more\<rparr>)"
    using inst by (simp add: example_facts fetch_active_store0 del: record_all.simps)
  from max count validate once thrice show ?thesis
    unfolding Let_def by blast
qed

section \<open>Two redemptions at once\<close>

text \<open>
  The three steps of one transaction, run with nothing in between, are
  \<^verbatim>\<open>RecordCouponUsage\<close> on a store that answers.
\<close>

lemma tx_step_alone:
  "interleave [0, 0, 0] (db, [(usage, AtFirst)]) =
     (snd (RecordCouponUsage no_faults db usage),
      [(usage, Returned (fst (RecordCouponUsage no_faults db usage)))])"
proof (cases "fetch_active db (CouponID usage)")
  case (Inl err)
  then show ?thesis
    by (simp add: RecordCouponUsage_no_faults fetch_active_def)
next
  case (Inr coupon)
  then show ?thesis
    by (simp add: RecordCouponUsage_no_faults fetch_active_def one_time_check_def
        multi_use_check_def gorm_Count_def gorm_Create_def no_faults_sel usage_count_def
        usage_type_distinct)
qed

lemma tx_step_first:
  "fetch_active db (CouponID usage) = Inr coupon \<Longrightarrow>
     tx_step db usage AtFirst = (db, AtCheck coupon)"
  by (simp add: fetch_active_def)

lemma tx_step_check_one_time:
  "UsageType coupon = OneTime \<Longrightarrow>
     tx_step db usage (AtCheck coupon) =
       (db, if usage_count db (CouponID usage) (CouponUsage.UserID usage) > 0
            then Returned (Some (errors_New ''one-time coupon already used''))
            else AtCreate)"
  by (simp add: one_time_check_def multi_use_check_def gorm_Count_def no_faults_sel
      usage_count_def usage_type_distinct)

lemma tx_step_create:
  "tx_step db usage AtCreate = (db\<lparr>coupon_usages := coupon_usages db @ [usage]\<rparr>, Returned None)"
  by (simp add: gorm_Create_def)

text \<open>
  Claim C2. Two redemptions of a one-time coupon by the same user, who has not used it
  yet. Run one after the other, the first succeeds and the second fails with the
  already-used error. Run with their statements alternating, both count zero usages
  before either inserts, both return nil, and the ledger ends with two usage records for
  the pair: the count and the insert are not atomic.
\<close>

theorem concurrent_redemptions_race:
  "fetch_active db couponID = Inr coupon \<and> UsageType coupon = OneTime \<and>
   usage_count db couponID userID = 0 \<and>
   CouponID u1 = couponID \<and> CouponUsage.UserID u1 = userID \<and>
   CouponID u2 = couponID \<and> CouponUsage.UserID u2 = userID \<longrightarrow>
     interleave [0, 0, 0, 1, 1, 1] (db, [(u1, AtFirst), (u2, AtFirst)]) =
       (db\<lparr>coupon_usages := coupon_usages db @ [u1]\<rparr>,
        [(u1, Returned None),
         (u2, Returned (Some (errors_New ''one-time coupon already used'')))]) \<and>
     interleave [0, 1, 0, 1, 0, 1] (db, [(u1, AtFirst), (u2, AtFirst)]) =
       (db\<lparr>coupon_usages := coupon_usages db @ [u1, u2]\<rparr>,
        [(u1, Returned None), (u2, Returned None)]) \<and>
     usage_count (db\<lparr>coupon_usages := coupon_usages db @ [u1, u2]\<rparr>) couponID userID = 2"
proof (intro impI, elim conjE)
  assume fetch: "fetch_active db couponID = Inr coupon"
    and one_time: "UsageType coupon = OneTime"
    and unused: "usage_count db couponID userID = 0"
    and u1: "CouponID u1 = couponID" "CouponUsage.UserID u1 = userID"
    and u2: "CouponID u2 = couponID" "CouponUsage.UserID u2 = userID"
  let ?db1 = "db\<lparr>coupon_usages := coupon_usages db @ [u1]\<rparr>"
  have count1: "usage_count ?db1 couponID userID = 1"
    using unused u1 by (simp add: usage_count_def)
  have fetch1: "fetch_active ?db1 couponID = Inr coupon"
    using fetch by (simp add: fetch_active_usages)
  have sequential: "interleave [0, 0, 0, 1, 1, 1] (db, [(u1, AtFirst), (u2, AtFirst)]) =
       (?db1, [(u1, Returned None),
               (u2, Returned (Some (errors_New ''one-time coupon already used'')))])"
    using fetch fetch1 one_time unused count1 u1 u2
    by (simp add: tx_step_first tx_step_check_one_time tx_step_create 
        del: tx_step.simps(1) tx_step.simps(2) tx_step.simps(3))
  have race: "interleave [0, 1, 0, 1, 0, 1] (db, [(u1, AtFirst), (u2, AtFirst)]) =
       (db\<lparr>coupon_usages := coupon_usages db @ [u1, u2]\<rparr>,
        [(u1, Returned None), (u2, Returned None)])"
    using fetch one_time unused u1 u2
    by (simp add: tx_step_first tx_step_check_one_time tx_step_create 
        del: tx_step.simps(1) tx_step.simps(2) tx_step.simps(3))
  have count2: "usage_count (db\<lparr>coupon_usages := coupon_usages db @ [u1, u2]\<rparr>) couponID userID = 2"
    using unused u1 u2 by (simp add: usage_count_def)
  from sequential race count2
  show "interleave [0, 0, 0, 1, 1, 1] (db, [(u1, AtFirst), (u2, AtFirst)]) =
       (db\<lparr>coupon_usages := coupon_usages db @ [u1]\<rparr>,
        [(u1, Returned None),
         (u2, Returned (Some (errors_New ''one-time coupon already used'')))]) \<and>
     interleave [0, 1, 0, 1, 0, 1] (db, [(u1, AtFirst), (u2, AtFirst)]) =
       (db\<lparr>coupon_usages := coupon_usages db @ [u1, u2]\<rparr>,
        [(u1, Returned None), (u2, Returned None)]) \<and>
     usage_count (db\<lparr>coupon_usages := coupon_usages db @ [u1, u2]\<rparr>) couponID userID = 2"
    by blast
qed

theorem concurrent_redemptions_race_example:
  "interleave [0, 0, 0, 1, 1, 1]
     (store0, [(usage_row 10 102 77, AtFirst), (usage_row 11 102 77, AtFirst)]) =
     (store0\<lparr>coupon_usages := [usage_row 10 102 77]\<rparr>,
      [(usage_row 10 102 77, Returned None),
       (usage_row 11 102 77, Returned (Some (errors_New ''one-time coupon already used'')))]) \<and>
   interleave [0, 1, 0, 1, 0, 1]
     (store0, [(usage_row 10 102 77, AtFirst), (usage_row 11 102 77, AtFirst)]) =
     (store0\<lparr>coupon_usages := [usage_row 10 102 77, usage_row 11 102 77]\<rparr>,
      [(usage_row 10 102 77, Returned None), (usage_row 11 102 77, Returned None)]) \<and>
   UsageType once50 = OneTime \<and>
   usage_count (store0\<lparr>coupon_usages := [usage_row 10 102 77, usage_row 11 102 77]\<rparr>) 102 77 = 2"
proof -
  have "fetch_active store0 102 = Inr once50"
    using fetch_active_store0(2) [of "[]"] by (simp add: store0_no_usages)
  moreover have "usage_count store0 102 77 = 0"
    by (simp add: usage_count_def store0_sel)
  ultimately show ?thesis
    using concurrent_redemptions_race [of store0 102 once50 77 "usage_row 10 102 77"
        "usage_row 11 102 77"]
    by (simp add: example_coupon_fields usage_row_sel store0_sel)
qed


end
